theory Spec2Isabelle
  imports Main
begin

section \<open>simpleforce: the client of force.go\<close>

text \<open>
  The package is a client of a remote platform: almost every function of force.go builds a
  request, hands it to the HTTP transport and interprets the response. The model makes
  that explicit.
  \<^item> Go strings are byte sequences: \<open>string\<close> (a \<open>char list\<close>).
  \<^item> A Go \<open>error\<close> is a value of the datatype \<open>error\<close>; a result \<open>(v, err)\<close> is a sum
    with \<open>Inl\<close> the error, a bare \<open>error\<close> result is an \<open>error option\<close> (\<open>None\<close> is nil).
  \<^item> The network and the local files are the \<open>world\<close>: the requests handed to the transport
    so far, in order, and the files by path. Every function that does I/O takes the world
    and returns the new one.
  \<^item> Code that is not in force.go (the standard library's parsers and decoders, and the
    package's own sobject and error files) is a field of the environment \<open>env\<close>, so every
    theorem holds whatever those functions compute. The pure string functions of the
    standard library that decide a request's text are written out.
  \<^item> \<open>log.Println\<close> is diagnostic output and is left out.
\<close>

subsection \<open>Errors\<close>

datatype error =
    ErrAuthentication
      \<comment> \<open>the package's sentinel for a request made without a session\<close>
  | ErrorString string
      \<comment> \<open>\<open>fmt.Errorf\<close> without \<open>%w\<close>: an error that is only its message\<close>
  | Wrapped string "error option"
      \<comment> \<open>\<open>fmt.Errorf(prefix + "%w", err)\<close>: the text before the verb, and the wrapped
          error (\<open>None\<close> when the argument is nil)\<close>
  | SalesforceError int string string
      \<comment> \<open>the typed platform error: HTTP status, platform error code, message\<close>
  | TransportError string
      \<comment> \<open>an error of the HTTP client or of request construction\<close>
  | DecodeError string
      \<comment> \<open>an error of a JSON or XML decoder, or of the URL parser\<close>
  | IOError string
      \<comment> \<open>an error of the local file system\<close>

text \<open>A call either returns or panics (a nil dereference).\<close>

datatype 'a outcome = Returns 'a | Panics

subsection \<open>Strings: the standard-library functions the URLs are built with\<close>

text \<open>\<open>strings.HasPrefix(s, prefix)\<close> and \<open>strings.HasSuffix(s, suffix)\<close>.\<close>

definition HasPrefix :: "string \<Rightarrow> string \<Rightarrow> bool" where
  "HasPrefix s pre = (length pre \<le> length s \<and> take (length pre) s = pre)"

definition HasSuffix :: "string \<Rightarrow> string \<Rightarrow> bool" where
  "HasSuffix s suf =
     (length suf \<le> length s \<and> drop (length s - length suf) s = suf)"

text \<open>
  \<open>strings.Replace(s, old, new, -1)\<close> for a non-empty \<open>old\<close>: every non-overlapping
  occurrence, from the left. (With an empty \<open>old\<close> Go inserts \<open>new\<close> around every code
  point; force.go never does that, and the model leaves the string as it is.)
\<close>

function Replace :: "string \<Rightarrow> string \<Rightarrow> string \<Rightarrow> string" where
  "Replace [] old new = []"
| "Replace (c # cs) old new =
     (if old \<noteq> [] \<and> HasPrefix (c # cs) old
      then new @ Replace (drop (length old) (c # cs)) old new
      else c # Replace cs old new)"
  by pat_completeness auto
termination
  by (relation "measure (\<lambda>(s, old, new). length s)") (auto simp: HasPrefix_def)

text \<open>\<open>strings.TrimRight(s, cutset)\<close>: drop the trailing bytes that are in the cutset.\<close>

definition TrimRight :: "string \<Rightarrow> string \<Rightarrow> string" where
  "TrimRight s cutset = rev (dropWhile (\<lambda>c. c \<in> set cutset) (rev s))"

text \<open>\<open>strconv.Itoa\<close>: the decimal text of an integer, as \<open>%d\<close> prints it.\<close>

definition digit :: "nat \<Rightarrow> char" where
  "digit d = ''0123456789'' ! d"

function digits :: "nat \<Rightarrow> string" where
  "digits n = (if n < 10 then [digit n] else digits (n div 10) @ [digit (n mod 10)])"
  by pat_completeness auto
termination
  by (relation "measure id") auto

declare digits.simps [simp del]

definition Itoa :: "int \<Rightarrow> string" where
  "Itoa i = (if i < 0 then CHR ''-'' # digits (nat (- i)) else digits (nat i))"

text \<open>
  \<open>fmt.Sprintf\<close> for the verbs force.go uses, \<open>%s\<close> with a string and \<open>%d\<close> with an
  int; \<open>%%\<close> is a percent sign. A verb without an argument prints Go's \<open>%!v(MISSING)\<close>,
  a lone \<open>%\<close> at the end \<open>%!(NOVERB)\<close>. (A verb of the wrong kind for its argument and
  arguments left over do not occur in force.go; the model prints the argument's text
  and drops what is left over.)
\<close>

datatype farg = S string | D int

fun render :: "farg \<Rightarrow> string" where
  "render (S s) = s"
| "render (D i) = Itoa i"

fun Sprintf :: "string \<Rightarrow> farg list \<Rightarrow> string" where
  "Sprintf [] args = []"
| "Sprintf [c] args = (if c = CHR ''%'' then ''%!(NOVERB)'' else [c])"
| "Sprintf (c # v # rest) args =
     (if c \<noteq> CHR ''%'' then c # Sprintf (v # rest) args
      else if v = CHR ''%'' then CHR ''%'' # Sprintf rest args
      else (case args of
              [] \<Rightarrow> ''%!'' @ [v] @ ''(MISSING)'' @ Sprintf rest []
            | a # as \<Rightarrow> render a @ Sprintf rest as))"

text \<open>
  \<open>url.QueryEscape\<close>: letters, digits and \<open>-_.~\<close> stay, a space becomes \<open>+\<close>, every other
  byte becomes \<open>%XX\<close> in upper-case hexadecimal.
\<close>

definition isAlnum :: "char \<Rightarrow> bool" where
  "isAlnum c =
     (let n = (of_char c :: nat)
      in (97 \<le> n \<and> n \<le> 122) \<or> (65 \<le> n \<and> n \<le> 90) \<or> (48 \<le> n \<and> n \<le> 57))"

definition shouldEscape :: "char \<Rightarrow> bool" where
  "shouldEscape c = (\<not> isAlnum c \<and> c \<notin> set ''-_.~'')"

definition upperhex :: string where
  "upperhex = ''0123456789ABCDEF''"

definition escapeByte :: "char \<Rightarrow> string" where
  "escapeByte c =
     (if \<not> shouldEscape c then [c]
      else if c = CHR '' '' then ''+''
      else [CHR ''%'', upperhex ! ((of_char c :: nat) div 16),
            upperhex ! ((of_char c :: nat) mod 16)])"

definition QueryEscape :: "string \<Rightarrow> string" where
  "QueryEscape s = concat (map escapeByte s)"

text \<open>\<open>html.EscapeString\<close>: the five characters \<open>& ' < > "\<close> become entities.\<close>

definition escapeHtml :: "char \<Rightarrow> string" where
  "escapeHtml c =
     (if c = CHR ''&'' then ''&amp;''
      else if c = CHR 0x27 then ''&#39;''
      else if c = CHR ''<'' then ''&lt;''
      else if c = CHR ''>'' then ''&gt;''
      else if c = CHR 0x22 then ''&#34;''
      else [c])"

definition EscapeString :: "string \<Rightarrow> string" where
  "EscapeString s = concat (map escapeHtml s)"

subsection \<open>HTTP, the world and the data of the package\<close>

record http_request =
  Method :: string
  URL :: string
  Header :: "(string \<times> string) list"
    \<comment> \<open>the headers in the order of the \<open>Header.Add\<close> calls\<close>
  ReqBody :: "string option"
    \<comment> \<open>the bytes of the body reader, \<open>None\<close> for a nil reader\<close>

text \<open>
  A response is its status code and its body, which is a reader: \<open>Body\<close> is the bytes
  the reader delivers and \<open>BodyErr\<close> the error that ends the reading, \<open>None\<close> when the
  body is read to its end. \<open>ioutil.ReadAll\<close> returns both; \<open>buf.ReadFrom\<close> fills the
  buffer with \<open>Body\<close> and force.go drops its error; \<open>io.Copy\<close> writes \<open>Body\<close> and returns
  \<open>BodyErr\<close>.
\<close>

record http_response =
  StatusCode :: int
  Body :: string
  BodyErr :: "error option"

definition ReadAll :: "http_response \<Rightarrow> string option \<times> error option" where
  \<comment> \<open>the slice \<open>ioutil.ReadAll\<close> returns is never nil\<close>
  "ReadAll resp = (Some (Body resp), BodyErr resp)"

text \<open>The bytes of a byte slice; a nil slice (\<open>None\<close>) has none.\<close>

definition bytes :: "string option \<Rightarrow> string" where
  "bytes data = (case data of None \<Rightarrow> [] | Some b \<Rightarrow> b)"

text \<open>
  The transport (\<open>http.Client.Do\<close>) answers a request with an error or a response; the
  answer may depend on the requests that came before.
\<close>

type_synonym transport = "http_request list \<Rightarrow> http_request \<Rightarrow> error + http_response"

record user_rec =
  user_id :: string
  user_name :: string
  user_fullName :: string
  user_email :: string

record Client =
  sessionID :: string
  user :: user_rec
  clientID :: string
  apiVersion :: string
  baseURL :: string
  instanceURL :: string
  useToolingAPI :: bool
  httpClient :: transport

record world =
  sent :: "http_request list"
    \<comment> \<open>every request handed to a transport so far, oldest first\<close>
  files :: "string \<Rightarrow> string option"
    \<comment> \<open>the local files: the content by path\<close>

text \<open>
  Modelled from the spec: the record type \<open>SObject\<close> and its methods \<open>setClient\<close>,
  \<open>setType\<close>, \<open>Set\<close>, \<open>StringField\<close> and \<open>ID\<close> are in a file of the package that is not
  part of the sources at hand. The spec: a record is an open-ended mapping from field
  name to a dynamically typed value (string, number, boolean, nested object or null) plus
  a non-owning back-reference to the Client; the reserved keys \<open>Id\<close> and
  \<open>attributes.type\<close> hold the identifier and the type name; a typed accessor returns the
  zero value when the field is absent or of another type. The back-reference is a Go
  pointer; the model stores the Client's value at the time of attaching.
\<close>

datatype jvalue =
    JString string
  | JNumber string
  | JBool bool
  | JNull
  | JObject "(string \<times> jvalue) list"

record SObject =
  sobj_fields :: "string \<Rightarrow> jvalue option"
  sobj_client :: "Client option"

definition setClient :: "SObject \<Rightarrow> Client \<Rightarrow> SObject" where
  "setClient obj c = obj\<lparr>sobj_client := Some c\<rparr>"

definition setType :: "SObject \<Rightarrow> string \<Rightarrow> SObject" where
  "setType obj typeName =
     obj\<lparr>sobj_fields := (sobj_fields obj)(''attributes'' \<mapsto> JObject [(''type'', JString typeName)])\<rparr>"

definition Set :: "SObject \<Rightarrow> string \<Rightarrow> jvalue \<Rightarrow> SObject" where
  "Set obj key v = obj\<lparr>sobj_fields := (sobj_fields obj)(key \<mapsto> v)\<rparr>"

definition StringField :: "SObject \<Rightarrow> string \<Rightarrow> string" where
  "StringField obj key = (case sobj_fields obj key of Some (JString s) \<Rightarrow> s | _ \<Rightarrow> [])"

definition ID :: "SObject \<Rightarrow> string" where
  "ID obj = StringField obj ''Id''"

record QueryResult =
  TotalSize :: int
  Done :: bool
  NextRecordsURL :: string
  Records :: "SObject list"

text \<open>The struct \<open>loginResponse\<close> that \<open>LoginPassword\<close> decodes the SOAP answer into.\<close>

record loginResponse =
  ServerURL :: string
  SessionID :: string
  UserID :: string
  UserEmail :: string
  UserFullName :: string
  UserName :: string

text \<open>
  The environment: what force.go calls and does not define.
  \<^item> \<open>http_DefaultClient\<close>: the transport of \<open>&http.Client{}\<close>.
  \<^item> \<open>NewRequest_err\<close>: the error of \<open>http.NewRequest(method, url, _)\<close>, \<open>None\<close> when the
    method and the URL are accepted.
  \<^item> \<open>parsedURL\<close>: the URL of the request that \<open>http.NewRequest\<close> makes of an accepted URL
    string: what \<open>url.Parse\<close> reads, written back as the transport sends it (a space in
    the path goes out as \<open>%20\<close>, for example).
  \<^item> \<open>url_Parse\<close>: \<open>url.Parse\<close>, giving the scheme and the host.
  \<^item> \<open>xml_Unmarshal_login\<close>, \<open>json_Unmarshal_QueryResult\<close> and
    \<open>json_Unmarshal_SObjectMeta\<close>: the decoders at the types force.go decodes into.
    \<open>json_Decode_QueryResult\<close> is the streaming decoder \<open>QueryMore\<close> puts on the body
    reader: it gets the bytes the reader delivers and the error that ends the reading.
  \<^item> \<open>os_Create_err\<close>: the error of \<open>os.Create\<close> on a path, \<open>None\<close> when the file can be
    created; \<open>base64_EncodeToString\<close>, \<open>filepath_Base\<close>: as named.
  \<^item> \<open>ParseSalesforceError\<close> (the package's Error Mapper) and \<open>Create\<close> (the record's
    create call) are code of the package that is not part of the sources at hand.
    \<open>Create\<close> gets the Client its record points to and returns that Client as it left it
    (the call works through the pointer), together with the created record, \<open>None\<close> for
    nil.
\<close>

record 'meta env =
  http_DefaultClient :: transport
  NewRequest_err :: "string \<Rightarrow> string \<Rightarrow> error option"
  parsedURL :: "string \<Rightarrow> string"
  url_Parse :: "string \<Rightarrow> error + string \<times> string"
  xml_Unmarshal_login :: "string \<Rightarrow> error + loginResponse"
  json_Unmarshal_QueryResult :: "string \<Rightarrow> error + QueryResult"
  json_Decode_QueryResult :: "string \<Rightarrow> error option \<Rightarrow> error + QueryResult"
  json_Unmarshal_SObjectMeta :: "string \<Rightarrow> error + 'meta"
  os_Create_err :: "string \<Rightarrow> error option"
  base64_EncodeToString :: "string \<Rightarrow> string"
  filepath_Base :: "string \<Rightarrow> string"
  ParseSalesforceError :: "int \<Rightarrow> string \<Rightarrow> error"
  Create :: "Client \<Rightarrow> SObject \<Rightarrow> world \<Rightarrow> SObject option \<times> Client \<times> world"

text \<open>
  \<open>http.NewRequest\<close> on accepted arguments: an empty method means GET, and the request's
  URL is the parsed one.
\<close>

definition NewRequest :: "'meta env \<Rightarrow> string \<Rightarrow> string \<Rightarrow> string option \<Rightarrow> http_request" where
  "NewRequest env method url body =
     \<lparr>Method = (if method = [] then ''GET'' else method), URL = parsedURL env url,
      Header = [], ReqBody = body\<rparr>"

text \<open>
  \<open>req.Header.Add\<close>. The key is kept as force.go writes it (Go stores its canonical
  form, \<open>Charset\<close> for \<open>charset\<close> and \<open>Soapaction\<close> for \<open>SOAPAction\<close>).
\<close>

definition Header_Add :: "http_request \<Rightarrow> string \<Rightarrow> string \<Rightarrow> http_request" where
  "Header_Add req key v = req\<lparr>Header := Header req @ [(key, v)]\<rparr>"

text \<open>\<open>client.httpClient.Do(req)\<close>: the request is handed to the Client's transport.\<close>

definition Do :: "Client \<Rightarrow> http_request \<Rightarrow> world \<Rightarrow> (error + http_response) \<times> world" where
  "Do c req w = (httpClient c (sent w) req, w\<lparr>sent := sent w @ [req]\<rparr>)"

subsection \<open>The Client\<close>

definition NewClient :: "'meta env \<Rightarrow> string \<Rightarrow> string \<Rightarrow> string \<Rightarrow> Client" where
  "NewClient env url cid version =
     (let c = \<lparr>sessionID = [],
               user = \<lparr>user_id = [], user_name = [], user_fullName = [], user_email = []\<rparr>,
               clientID = cid, apiVersion = version, baseURL = url, instanceURL = [],
               useToolingAPI = False, httpClient = http_DefaultClient env\<rparr>
      in if HasSuffix (baseURL c) ''/''
         then c\<lparr>baseURL := take (length (baseURL c) - 1) (baseURL c)\<rparr>
         else c)"

definition SetSidLoc :: "Client \<Rightarrow> string \<Rightarrow> string \<Rightarrow> Client" where
  "SetSidLoc c sid loc = c\<lparr>sessionID := sid, instanceURL := loc\<rparr>"

definition isLoggedIn :: "Client \<Rightarrow> bool" where
  "isLoggedIn c = (sessionID c \<noteq> [])"

text \<open>
  \<open>client.SObject(typeName...)\<close>: \<open>typeName\<close> is the list of names written at the call,
  and a call without names has the nil slice, \<open>[]\<close>. (An empty slice that is not nil can
  only be passed by spreading one, and then \<open>typeName[0]\<close> panics; force.go passes one
  name.)
\<close>

definition SObject_of :: "Client \<Rightarrow> string list \<Rightarrow> SObject" where
  "SObject_of c typeName =
     (let obj = setClient \<lparr>sobj_fields = Map.empty, sobj_client = None\<rparr> c
      in case typeName of [] \<Rightarrow> obj | t # _ \<Rightarrow> setType obj t)"

definition parseHost :: "'meta env \<Rightarrow> string \<Rightarrow> string" where
  "parseHost env input =
     (case url_Parse env input of
        Inr (scheme, host) \<Rightarrow> Sprintf ''%s://%s'' [S scheme, S host]
      | Inl err \<Rightarrow> ''Failed to parse URL input'')"

subsection \<open>The request pipeline\<close>

text \<open>
  \<open>httpRequest\<close> returns \<open>([]byte, error)\<close>: the pair of the data (\<open>None\<close> for nil) and the
  error (\<open>None\<close> for nil). Its last line returns what \<open>ioutil.ReadAll\<close> returns, so after
  a body that fails while it is read both are there.
\<close>

definition httpRequest ::
  "'meta env \<Rightarrow> Client \<Rightarrow> string \<Rightarrow> string \<Rightarrow> string option \<Rightarrow> world
     \<Rightarrow> (string option \<times> error option) \<times> world" where
  "httpRequest env c method url body w =
     (case NewRequest_err env method url of
        Some err \<Rightarrow> ((None, Some err), w)
      | None \<Rightarrow>
          (let req = Header_Add
                       (Header_Add (NewRequest env method url body)
                          ''Authorization'' (Sprintf ''Bearer %s'' [S (sessionID c)]))
                       ''Content-Type'' ''application/json''
           in case Do c req w of
                (Inl err, w') \<Rightarrow> ((None, Some err), w')
              | (Inr resp, w') \<Rightarrow>
                  if StatusCode resp < 200 \<or> StatusCode resp > 299
                  then ((None, Some (ParseSalesforceError env (StatusCode resp) (Body resp))),
                        w')
                  else (ReadAll resp, w')))"

subsection \<open>Queries\<close>

text \<open>The loop over \<open>result.Records\<close> that \<open>Query\<close> and \<open>QueryMore\<close> end with.\<close>

definition attachClient :: "Client \<Rightarrow> QueryResult \<Rightarrow> QueryResult" where
  "attachClient c result = result\<lparr>Records := map (\<lambda>r. setClient r c) (Records result)\<rparr>"

definition Query ::
  "'meta env \<Rightarrow> Client \<Rightarrow> string \<Rightarrow> world \<Rightarrow> (error + QueryResult) \<times> world" where
  "Query env c q w =
     (if \<not> isLoggedIn c then (Inl ErrAuthentication, w)
      else
        (let u = (if HasPrefix q ''/services/data''
                  then Sprintf ''%s%s'' [S (instanceURL c), S q]
                  else
                    (let formatString0 = ''%s/services/data/v%s/query?q=%s'';
                         baseURL = instanceURL c;
                         formatString =
                           (if useToolingAPI c
                            then Replace formatString0 ''query'' ''tooling/query''
                            else formatString0)
                     in Sprintf formatString [S baseURL, S (apiVersion c), S (QueryEscape q)]))
         in case httpRequest env c ''GET'' u None w of
              ((data, Some err), w') \<Rightarrow> (Inl err, w')
            | ((data, None), w') \<Rightarrow>
                (case json_Unmarshal_QueryResult env (bytes data) of
                   Inl err \<Rightarrow> (Inl err, w')
                 | Inr result \<Rightarrow> (Inr (attachClient c result), w'))))"

definition ApexREST ::
  "'meta env \<Rightarrow> Client \<Rightarrow> string \<Rightarrow> string \<Rightarrow> string option \<Rightarrow> world
     \<Rightarrow> (string option \<times> error option) \<times> world" where
  "ApexREST env c method path requestBody w =
     (if \<not> isLoggedIn c then ((None, Some ErrAuthentication), w)
      else
        (let u = Sprintf ''%s/%s'' [S (instanceURL c), S path]
         in case httpRequest env c method u requestBody w of
              ((data, Some err), w') \<Rightarrow> ((None, Some err), w')
            | ((data, None), w') \<Rightarrow> ((data, None), w')))"

definition QueryMore ::
  "'meta env \<Rightarrow> Client \<Rightarrow> string \<Rightarrow> world \<Rightarrow> (error + QueryResult) \<times> world" where
  "QueryMore env c nextRecordsURL w =
     (if \<not> isLoggedIn c then (Inl ErrAuthentication, w)
      else
        (let url = Sprintf ''%s%s'' [S (instanceURL c), S nextRecordsURL]
         in case NewRequest_err env ''GET'' url of
              Some err \<Rightarrow> (Inl err, w)
            | None \<Rightarrow>
                (let req = Header_Add
                             (Header_Add (NewRequest env ''GET'' url None)
                                ''Authorization'' (Sprintf ''Bearer %s'' [S (sessionID c)]))
                             ''Content-Type'' ''application/json''
                 in case Do c req w of
                      (Inl err, w') \<Rightarrow> (Inl err, w')
                    | (Inr resp, w') \<Rightarrow>
                        if StatusCode resp < 200 \<or> StatusCode resp > 299
                        then (Inl (ErrorString
                                     (Sprintf ''QueryMore failed with status: %d''
                                        [D (StatusCode resp)])), w')
                        else
                          (case json_Decode_QueryResult env (Body resp) (BodyErr resp) of
                             Inl err \<Rightarrow> (Inl err, w')
                           | Inr result \<Rightarrow> (Inr (attachClient c result), w')))))"

subsection \<open>Login\<close>

definition soapBody :: string where
  \<open>soapBody = ''<?xml version="1.0" encoding="utf-8" ?>
        <env:Envelope
                xmlns:xsd="http://www.w3.org/2001/XMLSchema"
                xmlns:xsi="http://www.w3.org/2001/XMLSchema-instance"
                xmlns:env="http://schemas.xmlsoap.org/soap/envelope/"
                xmlns:urn="urn:partner.soap.sforce.com">
            <env:Header>
                <urn:CallOptions>
                    <urn:client>%s</urn:client>
                    <urn:defaultNamespace>sf</urn:defaultNamespace>
                </urn:CallOptions>
            </env:Header>
            <env:Body>
                <n1:login xmlns:n1="urn:partner.soap.sforce.com">
                    <n1:username>%s</n1:username>
                    <n1:password>%s%s</n1:password>
                </n1:login>
            </env:Body>
        </env:Envelope>''\<close>

text \<open>The URL and the request of the login handshake.\<close>

definition loginURL :: "Client \<Rightarrow> string" where
  "loginURL c = Sprintf ''%s/services/Soap/u/%s'' [S (baseURL c), S (apiVersion c)]"

definition loginRequest ::
  "'meta env \<Rightarrow> Client \<Rightarrow> string \<Rightarrow> string \<Rightarrow> string \<Rightarrow> http_request" where
  "loginRequest env c username password token =
     (let body = Sprintf soapBody
                   [S (clientID c), S username, S (EscapeString password), S token];
          url = loginURL c
      in Header_Add
           (Header_Add
              (Header_Add (NewRequest env ''POST'' url (Some body))
                 ''Content-Type'' ''text/xml'')
              ''charset'' ''UTF-8'')
           ''SOAPAction'' ''login'')"

text \<open>
  \<open>LoginPassword\<close> returns its error and, since it writes the Client's fields, the Client
  as it leaves it.
\<close>

definition LoginPassword ::
  "'meta env \<Rightarrow> Client \<Rightarrow> string \<Rightarrow> string \<Rightarrow> string \<Rightarrow> world
     \<Rightarrow> error option \<times> Client \<times> world" where
  "LoginPassword env c username password token w =
     (let req = loginRequest env c username password token
      in case NewRequest_err env ''POST'' (loginURL c) of
           Some err \<Rightarrow> (Some err, c, w)
         | None \<Rightarrow>
             (case Do c req w of
                (Inl err, w') \<Rightarrow> (Some err, c, w')
              | (Inr resp, w') \<Rightarrow>
                  if StatusCode resp \<noteq> 200
                  then (Some (ParseSalesforceError env (StatusCode resp) (Body resp)), c, w')
                  else
                    (case xml_Unmarshal_login env (Body resp) of
                       Inl err \<Rightarrow> (Some err, c, w')
                     | Inr lr \<Rightarrow>
                         (None,
                          c\<lparr>sessionID := SessionID lr,
                            instanceURL := parseHost env (ServerURL lr),
                            user := (user c)\<lparr>user_id := UserID lr,
                                              user_name := UserName lr,
                                              user_email := UserEmail lr,
                                              user_fullName := UserFullName lr\<rparr>\<rparr>,
                          w'))))"

subsection \<open>File transfer\<close>

text \<open>The functional options: an option is a function that writes a field of the record.\<close>

type_synonym UploadOption = "SObject \<Rightarrow> SObject"

definition WithTitle :: "string \<Rightarrow> UploadOption" where
  "WithTitle title = (\<lambda>obj. Set obj ''Title'' (JString title))"

definition WithDescription :: "string \<Rightarrow> UploadOption" where
  "WithDescription desc = (\<lambda>obj. Set obj ''Description'' (JString desc))"

text \<open>
  \<open>UploadFileToContentVersion\<close> returns \<open>(contentVersionID, contentDocumentID, err)\<close>, and
  the Client as the create call left it. A file that is not in \<open>files\<close> cannot be read.
\<close>

definition contentVersionRecord ::
  "'meta env \<Rightarrow> Client \<Rightarrow> string \<Rightarrow> string \<Rightarrow> string \<Rightarrow> UploadOption list \<Rightarrow> SObject" where
  \<comment> \<open>the steps "Build ContentVersion SObject" and "Apply options"\<close>
  "contentVersionRecord env c filePath data parentRecordID opts =
     (let encoded = base64_EncodeToString env data;
          fileName = filepath_Base env filePath;
          cv = Set (Set (Set (SObject_of c [''ContentVersion''])
                           ''PathOnClient'' (JString fileName))
                      ''VersionData'' (JString encoded))
                 ''FirstPublishLocationId'' (JString parentRecordID)
      in fold (\<lambda>opt obj. opt obj) opts cv)"

definition contentDocumentQuery :: "string \<Rightarrow> string" where
  \<comment> \<open>the SOQL text of the follow-up query\<close>
  "contentDocumentQuery contentVersionID =
     Sprintf (''SELECT ContentDocumentId FROM ContentVersion WHERE Id = ''
              @ [CHR 0x27] @ ''%s'' @ [CHR 0x27])
       [S contentVersionID]"

definition UploadFileToContentVersion ::
  "'meta env \<Rightarrow> Client \<Rightarrow> string \<Rightarrow> string \<Rightarrow> UploadOption list \<Rightarrow> world
     \<Rightarrow> (string \<times> string \<times> error option) \<times> Client \<times> world" where
  "UploadFileToContentVersion env c filePath parentRecordID opts w =
     (case files w filePath of
        None \<Rightarrow>
          (([], [], Some (Wrapped ''failed to read file: '' (Some (IOError filePath)))), c, w)
      | Some data \<Rightarrow>
          (case Create env c (contentVersionRecord env c filePath data parentRecordID opts) w of
             (None, c', w') \<Rightarrow>
               (([], [], Some (ErrorString ''failed to create ContentVersion'')), c', w')
           | (Some result, c', w') \<Rightarrow>
               if ID result = []
               then (([], [], Some (ErrorString ''failed to create ContentVersion'')), c', w')
               else
                 (let contentVersionID = ID result
                  in case Query env c' (contentDocumentQuery contentVersionID) w' of
                       (Inl err, w'') \<Rightarrow>
                         ((contentVersionID, [],
                           Some (Wrapped
                             ''file uploaded, but failed to retrieve ContentDocumentId: ''
                             (Some err))), c', w'')
                     | (Inr qr, w'') \<Rightarrow>
                         (case Records qr of
                            [] \<Rightarrow>
                              ((contentVersionID, [],
                                Some (Wrapped
                                  ''file uploaded, but failed to retrieve ContentDocumentId: ''
                                  None)), c', w'')
                          | r # _ \<Rightarrow>
                              ((contentVersionID, StringField r ''ContentDocumentId'', None),
                               c', w'')))))"

text \<open>
  \<open>download\<close> does not look at the error of \<open>http.NewRequest\<close>: when the URL is rejected
  the request is nil and \<open>req.Header.Add\<close> panics. After a status in [200,299] the file is
  created (emptied when it exists) and \<open>io.Copy\<close> copies the body into it: the file gets
  the bytes the body delivers and the call returns the error that ended the reading.
  (An error of writing the local file is not modelled.)
\<close>

definition download ::
  "'meta env \<Rightarrow> Client \<Rightarrow> string \<Rightarrow> string \<Rightarrow> world \<Rightarrow> error option outcome \<times> world" where
  "download env c apiPath filepath w =
     (let url = Sprintf ''%s%s'' [S (TrimRight (instanceURL c) ''/''), S apiPath]
      in case NewRequest_err env ''GET'' url of
           Some err \<Rightarrow> (Panics, w)
         | None \<Rightarrow>
             (let req = Header_Add
                          (Header_Add
                             (Header_Add (NewRequest env ''GET'' url None)
                                ''Content-Type'' ''application/json; charset=UTF-8'')
                             ''Accept'' ''application/json'')
                          ''Authorization'' (''Bearer '' @ sessionID c)
              in case Do c req w of
                   (Inl err, w') \<Rightarrow> (Returns (Some err), w')
                 | (Inr resp, w') \<Rightarrow>
                     if StatusCode resp < 200 \<or> StatusCode resp > 299
                     then (Returns (Some (ErrorString
                                     (Sprintf ''ERROR: statuscode: %d, body: %s''
                                        [D (StatusCode resp), S (Body resp)]))), w')
                     else
                       (case os_Create_err env filepath of
                          Some err \<Rightarrow> (Returns (Some err), w')
                        | None \<Rightarrow>
                            (Returns (BodyErr resp),
                             w'\<lparr>files := (files w')(filepath \<mapsto> Body resp)\<rparr>))))"

definition DownloadFile ::
  "'meta env \<Rightarrow> Client \<Rightarrow> string \<Rightarrow> string \<Rightarrow> world \<Rightarrow> error option outcome \<times> world" where
  "DownloadFile env c contentVersionID filepath w =
     (let apiPath = Sprintf ''/services/data/v%s/sobjects/ContentVersion/%s/VersionData''
                      [S (apiVersion c), S contentVersionID]
      in download env c apiPath filepath w)"

definition DownloadAttachment ::
  "'meta env \<Rightarrow> Client \<Rightarrow> string \<Rightarrow> string \<Rightarrow> world \<Rightarrow> error option outcome \<times> world" where
  "DownloadAttachment env c attachmentId filepath w =
     (let apiPath = Sprintf ''/services/data/v%s/sobjects/Attachment/%s/Body''
                      [S (apiVersion c), S attachmentId]
      in download env c apiPath filepath w)"

definition DownloadLegacyFile ::
  "'meta env \<Rightarrow> Client \<Rightarrow> string \<Rightarrow> string \<Rightarrow> world \<Rightarrow> error option outcome \<times> world" where
  "DownloadLegacyFile env c attachmentID filepath w =
     (let apiPath = Sprintf ''/services/data/v%s/sobjects/Attachment/%s/Body''
                      [S (apiVersion c), S attachmentID]
      in download env c apiPath filepath w)"

text \<open>\<open>DescribeGlobal\<close> ignores the error of \<open>http.NewRequest\<close> as \<open>download\<close> does.\<close>

definition DescribeGlobal ::
  "'meta env \<Rightarrow> Client \<Rightarrow> world \<Rightarrow> (error + 'meta) outcome \<times> world" where
  "DescribeGlobal env c w =
     (let apiPath = Sprintf ''/services/data/v%s/sobjects'' [S (apiVersion c)];
          baseURL' = TrimRight (baseURL c) ''/'';
          url = Sprintf ''%s%s'' [S baseURL', S apiPath]
      in case NewRequest_err env ''GET'' url of
           Some err \<Rightarrow> (Panics, w)
         | None \<Rightarrow>
             (let req = Header_Add
                          (Header_Add
                             (Header_Add (NewRequest env ''GET'' url None)
                                ''Content-Type'' ''application/json; charset=UTF-8'')
                             ''Accept'' ''application/json'')
                          ''Authorization'' (''Bearer '' @ sessionID c)
              in case Do c req w of
                   (Inl err, w') \<Rightarrow> (Returns (Inl err), w')
                 | (Inr resp, w') \<Rightarrow>
                     (case json_Unmarshal_SObjectMeta env (Body resp) of
                        Inl err \<Rightarrow> (Returns (Inl err), w')
                      | Inr meta \<Rightarrow> (Returns (Inr meta), w'))))"

subsection \<open>Notions the properties are stated with\<close>

text \<open>The request \<open>httpRequest\<close> builds from its arguments and the session token.\<close>

definition pipelineRequest ::
  "'meta env \<Rightarrow> Client \<Rightarrow> string \<Rightarrow> string \<Rightarrow> string option \<Rightarrow> http_request" where
  "pipelineRequest env c method url body =
     \<lparr>Method = (if method = [] then ''GET'' else method), URL = parsedURL env url,
      Header = [(''Authorization'', ''Bearer '' @ sessionID c),
                (''Content-Type'', ''application/json'')],
      ReqBody = body\<rparr>"

text \<open>
  The URL of a query in the spec's words: a \<open>q\<close> that begins with the data-API path
  prefix is appended to the instance URL as it is; any other \<open>q\<close> is percent-encoded and
  appended to \<open><instanceURL>/services/data/v<version>/query?q=\<close>, or to the tooling
  variant of that path.
\<close>

definition queryURL :: "Client \<Rightarrow> string \<Rightarrow> string" where
  "queryURL c q =
     (if HasPrefix q ''/services/data''
      then instanceURL c @ q
      else instanceURL c @ ''/services/data/v'' @ apiVersion c @
           (if useToolingAPI c then ''/tooling/query?q='' else ''/query?q='') @
           QueryEscape q)"

text \<open>The URLs and the requests \<open>download\<close> and \<open>DescribeGlobal\<close> build.\<close>

definition downloadURL :: "Client \<Rightarrow> string \<Rightarrow> string" where
  "downloadURL c apiPath = TrimRight (instanceURL c) ''/'' @ apiPath"

definition describeURL :: "Client \<Rightarrow> string" where
  "describeURL c =
     TrimRight (baseURL c) ''/'' @ ''/services/data/v'' @ apiVersion c @ ''/sobjects''"

definition downloadRequest :: "'meta env \<Rightarrow> Client \<Rightarrow> string \<Rightarrow> http_request" where
  "downloadRequest env c apiPath =
     \<lparr>Method = ''GET'', URL = parsedURL env (downloadURL c apiPath),
      Header = [(''Content-Type'', ''application/json; charset=UTF-8''),
                (''Accept'', ''application/json''),
                (''Authorization'', ''Bearer '' @ sessionID c)],
      ReqBody = None\<rparr>"

definition describeRequest :: "'meta env \<Rightarrow> Client \<Rightarrow> http_request" where
  "describeRequest env c =
     \<lparr>Method = ''GET'', URL = parsedURL env (describeURL c),
      Header = [(''Content-Type'', ''application/json; charset=UTF-8''),
                (''Accept'', ''application/json''),
                (''Authorization'', ''Bearer '' @ sessionID c)],
      ReqBody = None\<rparr>"

subsection \<open>An example environment\<close>

text \<open>
  The examples below run the client against a server that gives one fixed answer. Their
  environment fixes the library functions at the arguments the examples pass: every URL
  the examples build with it is accepted and is written back as it is, and the decoders
  know the bodies of the examples. \<open>parsingEnv\<close> is that environment with the library's
  reading of two continuation paths: one with a malformed escape, which
  \<open>http.NewRequest\<close> turns down, and one with a space, which goes out as \<open>%20\<close>.
\<close>

text \<open>
  Modelled from the spec: the Error Mapper \<open>ParseSalesforceError\<close> is in a file of the
  package that is not part of the sources at hand. The spec: it attempts to parse the body
  as the platform's JSON error envelope (an array of \<open>{message, errorCode}\<close> objects);
  if parsing succeeds it returns an error carrying the first entry's code and message and
  the HTTP status; if parsing fails it returns a generic error carrying only the status
  and the raw body text. The parameter \<open>envelope\<close> is the JSON parse: the first entry's
  message and error code, \<open>None\<close> when the body is not such an envelope.
\<close>

definition specErrorMapper :: "(string \<Rightarrow> (string \<times> string) option) \<Rightarrow> int \<Rightarrow> string \<Rightarrow> error" where
  "specErrorMapper envelope statusCode body =
     (case envelope body of
        Some (message, errorCode) \<Rightarrow> SalesforceError statusCode errorCode message
      | None \<Rightarrow> SalesforceError statusCode [] body)"

definition notFoundBody :: string where
  \<open>notFoundBody = ''[{"message":"The requested resource does not exist","errorCode":"NOT_FOUND"}]''\<close>

definition invalidSessionBody :: string where
  \<open>invalidSessionBody = ''[{"message":"Session expired or invalid","errorCode":"INVALID_SESSION_ID"}]''\<close>

definition exampleEnvelope :: "string \<Rightarrow> (string \<times> string) option" where
  "exampleEnvelope body =
     (if body = notFoundBody then Some (''The requested resource does not exist'', ''NOT_FOUND'')
      else if body = invalidSessionBody then Some (''Session expired or invalid'', ''INVALID_SESSION_ID'')
      else None)"

definition answer :: "http_response \<Rightarrow> transport" where
  "answer resp = (\<lambda>earlier req. Inr resp)"

definition loginBody :: string where
  \<open>loginBody = ''<Envelope><Body><loginResponse><result><serverUrl>https://na1.salesforce.com/services/Soap/u/54.0/00D</serverUrl></result></loginResponse></Body></Envelope>''\<close>

definition queryBody :: string where
  \<open>queryBody = ''{"totalSize":2,"done":true,"records":[{"Id":"500A"},{"Id":"500B"}]}''\<close>

definition emptyBody :: string where
  \<open>emptyBody = ''{"totalSize":0,"done":true,"records":[]}''\<close>

definition decodedRecord :: "string \<Rightarrow> SObject" where
  "decodedRecord i = \<lparr>sobj_fields = [''Id'' \<mapsto> JString i], sobj_client = None\<rparr>"

definition exampleQueryResult :: "string \<Rightarrow> error + QueryResult" where
  "exampleQueryResult body =
     (if body = queryBody
      then Inr \<lparr>TotalSize = 2, Done = True, NextRecordsURL = [],
                Records = [decodedRecord ''500A'', decodedRecord ''500B'']\<rparr>
      else if body = emptyBody
      then Inr \<lparr>TotalSize = 0, Done = True, NextRecordsURL = [], Records = []\<rparr>
      else Inl (DecodeError ''invalid character''))"

definition exampleEnv ::
  "transport \<Rightarrow> (Client \<Rightarrow> SObject \<Rightarrow> world \<Rightarrow> SObject option \<times> Client \<times> world) \<Rightarrow> unit env" where
  "exampleEnv t cr =
     \<lparr>http_DefaultClient = t,
      NewRequest_err = (\<lambda>method url. None),
      parsedURL = (\<lambda>url. url),
      url_Parse = (\<lambda>input. if input = ''https://na1.salesforce.com/services/Soap/u/54.0/00D''
                             then Inr (''https'', ''na1.salesforce.com'')
                             else Inl (DecodeError ''parse'')),
      xml_Unmarshal_login =
        (\<lambda>body. if body = loginBody
                 then Inr \<lparr>ServerURL = ''https://na1.salesforce.com/services/Soap/u/54.0/00D'',
                           SessionID = [], UserID = [], UserEmail = [], UserFullName = [],
                           UserName = []\<rparr>
                 else Inl (DecodeError ''EOF'')),
      json_Unmarshal_QueryResult = exampleQueryResult,
      json_Decode_QueryResult =
        (\<lambda>body readErr. case readErr of None \<Rightarrow> exampleQueryResult body
                                      | Some err \<Rightarrow> Inl err),
      json_Unmarshal_SObjectMeta = (\<lambda>body. Inl (DecodeError ''cannot unmarshal'')),
      os_Create_err = (\<lambda>path. None),
      base64_EncodeToString = (\<lambda>data. if data = ''hi'' then ''aGk='' else []),
      filepath_Base = (\<lambda>path. if path = ''/tmp/hi.txt'' then ''hi.txt'' else path),
      ParseSalesforceError = specErrorMapper exampleEnvelope,
      Create = cr\<rparr>"

definition createNil :: "Client \<Rightarrow> SObject \<Rightarrow> world \<Rightarrow> SObject option \<times> Client \<times> world" where
  "createNil c obj w = (None, c, w)"

definition createWithId :: "string \<Rightarrow> Client \<Rightarrow> SObject \<Rightarrow> world \<Rightarrow> SObject option \<times> Client \<times> world" where
  "createWithId i c obj w = (Some (Set obj ''Id'' (JString i)), c, w)"

definition exampleWorld :: world where
  "exampleWorld = \<lparr>sent = [], files = [''/tmp/hi.txt'' \<mapsto> ''hi'']\<rparr>"

definition freshClient :: "transport \<Rightarrow> Client" where
  "freshClient t = NewClient (exampleEnv t createNil) ''https://login.salesforce.com/'' ''simpleforce'' ''54.0''"

definition sessionClient :: "transport \<Rightarrow> Client" where
  "sessionClient t = SetSidLoc (freshClient t) ''00Dsid'' ''https://na1.salesforce.com''"

definition loginFaultBody :: string where
  \<open>loginFaultBody = ''<soapenv:Envelope><soapenv:Body><soapenv:Fault><faultcode>INVALID_LOGIN</faultcode><faultstring>INVALID_LOGIN: Invalid username, password, security token; or user locked out.</faultstring></soapenv:Fault></soapenv:Body></soapenv:Envelope>''\<close>

definition queryServer :: transport where
  "queryServer = answer \<lparr>StatusCode = 200, Body = queryBody, BodyErr = None\<rparr>"

definition emptyServer :: transport where
  "emptyServer = answer \<lparr>StatusCode = 200, Body = emptyBody, BodyErr = None\<rparr>"

definition notFoundServer :: transport where
  "notFoundServer = answer \<lparr>StatusCode = 404, Body = notFoundBody, BodyErr = None\<rparr>"

definition invalidSessionServer :: transport where
  "invalidSessionServer = answer \<lparr>StatusCode = 401, Body = invalidSessionBody, BodyErr = None\<rparr>"

definition loginFaultServer :: transport where
  "loginFaultServer = answer \<lparr>StatusCode = 500, Body = loginFaultBody, BodyErr = None\<rparr>"

definition loginServer :: transport where
  "loginServer = answer \<lparr>StatusCode = 200, Body = loginBody, BodyErr = None\<rparr>"

definition truncatedBody :: string where
  \<open>truncatedBody = ''{"totalSize":2,"done":true,"rec''\<close>

definition truncatedServer :: transport where
  "truncatedServer =
     answer \<lparr>StatusCode = 200, Body = truncatedBody,
             BodyErr = Some (TransportError ''unexpected EOF'')\<rparr>"

definition parsingEnv :: "transport \<Rightarrow> unit env" where
  "parsingEnv t =
     (exampleEnv t createNil)
       \<lparr>NewRequest_err :=
          (\<lambda>method url.
             if url = ''https://na1.salesforce.com/services/data/v54.0/query/01g5e%zz''
             then Some (TransportError ''invalid URL escape'')
             else None),
        parsedURL :=
          (\<lambda>url.
             if url = ''https://na1.salesforce.com/services/data/v54.0/query/01g5e 2000''
             then ''https://na1.salesforce.com/services/data/v54.0/query/01g5e%202000''
             else url)\<rparr>"

section \<open>Properties\<close>

declare Sprintf.simps [simp del] Replace.simps [simp del]

subsection \<open>Formatting\<close>

text \<open>What \<open>Sprintf\<close> and \<open>Replace\<close> give on the format strings of force.go.\<close>

lemma Sprintf_ss: "Sprintf ''%s%s'' [S a, S b] = a @ b"
  by (simp add: Sprintf.simps)

lemma Sprintf_Bearer: "Sprintf ''Bearer %s'' [S t] = ''Bearer '' @ t"
  by (simp add: Sprintf.simps)

lemma Replace_query:
  "Replace ''%s/services/data/v%s/query?q=%s'' ''query'' ''tooling/query'' =
     ''%s/services/data/v%s/tooling/query?q=%s''"
  by (simp add: Replace.simps HasPrefix_def)

lemma Sprintf_query:
  "Sprintf ''%s/services/data/v%s/query?q=%s'' [S a, S b, S d] =
     a @ ''/services/data/v'' @ b @ ''/query?q='' @ d"
  by (simp add: Sprintf.simps)

lemma Sprintf_tooling:
  "Sprintf ''%s/services/data/v%s/tooling/query?q=%s'' [S a, S b, S d] =
     a @ ''/services/data/v'' @ b @ ''/tooling/query?q='' @ d"
  by (simp add: Sprintf.simps)

lemma Sprintf_QueryMore_status:
  "Sprintf ''QueryMore failed with status: %d'' [D n] =
     ''QueryMore failed with status: '' @ Itoa n"
  by (simp add: Sprintf.simps)

lemma Sprintf_download_status:
  "Sprintf ''ERROR: statuscode: %d, body: %s'' [D n, S b] =
     ''ERROR: statuscode: '' @ Itoa n @ '', body: '' @ b"
  by (simp add: Sprintf.simps)

lemma Sprintf_Attachment:
  "Sprintf ''/services/data/v%s/sobjects/Attachment/%s/Body'' [S v, S i] =
     ''/services/data/v'' @ v @ ''/sobjects/Attachment/'' @ i @ ''/Body''"
  by (simp add: Sprintf.simps)

lemma Sprintf_sobjects:
  "Sprintf ''/services/data/v%s/sobjects'' [S v] = ''/services/data/v'' @ v @ ''/sobjects''"
  by (simp add: Sprintf.simps)

lemma Itoa_401: "Itoa 401 = ''401''"
  by (simp add: Itoa_def digits.simps digit_def)

lemma Itoa_404: "Itoa 404 = ''404''"
  by (simp add: Itoa_def digits.simps digit_def)

subsection \<open>The examples' clients and servers\<close>

lemmas example_defs =
  exampleEnv_def sessionClient_def freshClient_def NewClient_def SetSidLoc_def
  exampleWorld_def answer_def HasSuffix_def HasPrefix_def isLoggedIn_def

lemmas server_defs =
  queryServer_def emptyServer_def notFoundServer_def invalidSessionServer_def
  loginFaultServer_def loginServer_def

lemmas escape_defs =
  QueryEscape_def escapeByte_def shouldEscape_def isAlnum_def upperhex_def

lemma notFound_facts:
  "isLoggedIn (sessionClient notFoundServer)"
  "instanceURL (sessionClient notFoundServer) = ''https://na1.salesforce.com''"
  "apiVersion (sessionClient notFoundServer) = ''54.0''"
  "sessionID (sessionClient notFoundServer) = ''00Dsid''"
  "httpClient (sessionClient notFoundServer) earlier req =
     Inr \<lparr>StatusCode = 404, Body = notFoundBody, BodyErr = None\<rparr>"
  "NewRequest_err (exampleEnv notFoundServer cr) method url = None"
  "parsedURL (exampleEnv notFoundServer cr) url = url"
  "ParseSalesforceError (exampleEnv notFoundServer cr) 404 notFoundBody =
     SalesforceError 404 ''NOT_FOUND'' ''The requested resource does not exist''"
  "os_Create_err (exampleEnv notFoundServer cr) path = None"
  by (simp_all add: example_defs notFoundServer_def specErrorMapper_def exampleEnvelope_def)

subsection \<open>What each function hands to the transport\<close>

lemma httpRequest_sent:
  "sent (snd (httpRequest env c method url body w)) =
     sent w @ (case NewRequest_err env method url of
                 Some err \<Rightarrow> []
               | None \<Rightarrow> [pipelineRequest env c method url body])"
  by (simp add: httpRequest_def Do_def NewRequest_def Header_Add_def pipelineRequest_def
        Sprintf_Bearer Let_def split: option.split sum.split)

lemma Query_sent:
  "sent (snd (Query env c q w)) =
     (if isLoggedIn c
      then sent (snd (httpRequest env c ''GET''
             (if HasPrefix q ''/services/data'' then instanceURL c @ q
              else instanceURL c @ ''/services/data/v'' @ apiVersion c @
                   (if useToolingAPI c then ''/tooling/query?q='' else ''/query?q='') @
                   QueryEscape q) None w))
      else sent w)"
  by (auto simp add: Query_def Sprintf_ss Replace_query Sprintf_query Sprintf_tooling Let_def
        split: prod.split option.split sum.split)

lemma QueryMore_answered:
  assumes "isLoggedIn c"
    and "NewRequest_err env ''GET'' (instanceURL c @ u) = None"
    and "httpClient c (sent w) (pipelineRequest env c ''GET'' (instanceURL c @ u) None) =
           Inr resp"
  shows "QueryMore env c u w =
           (if StatusCode resp < 200 \<or> StatusCode resp > 299
            then Inl (ErrorString (''QueryMore failed with status: '' @ Itoa (StatusCode resp)))
            else (case json_Decode_QueryResult env (Body resp) (BodyErr resp) of
                    Inl err \<Rightarrow> Inl err
                  | Inr result \<Rightarrow> Inr (attachClient c result)),
            w\<lparr>sent := sent w @ [pipelineRequest env c ''GET'' (instanceURL c @ u) None]\<rparr>)"
  using assms
  by (simp add: QueryMore_def Do_def NewRequest_def Header_Add_def pipelineRequest_def Let_def
        Sprintf_ss Sprintf_Bearer Sprintf_QueryMore_status split: sum.split)

lemma download_accepted:
  assumes "NewRequest_err env ''GET'' (downloadURL c apiPath) = None"
  shows "download env c apiPath filepath w =
           (case httpClient c (sent w) (downloadRequest env c apiPath) of
              Inl err \<Rightarrow>
                (Returns (Some err), w\<lparr>sent := sent w @ [downloadRequest env c apiPath]\<rparr>)
            | Inr resp \<Rightarrow>
                if StatusCode resp < 200 \<or> StatusCode resp > 299
                then (Returns (Some (ErrorString
                        (''ERROR: statuscode: '' @ Itoa (StatusCode resp) @ '', body: '' @
                         Body resp))),
                      w\<lparr>sent := sent w @ [downloadRequest env c apiPath]\<rparr>)
                else (case os_Create_err env filepath of
                        Some err \<Rightarrow>
                          (Returns (Some err),
                           w\<lparr>sent := sent w @ [downloadRequest env c apiPath]\<rparr>)
                      | None \<Rightarrow>
                          (Returns (BodyErr resp),
                           w\<lparr>sent := sent w @ [downloadRequest env c apiPath],
                             files := (files w)(filepath \<mapsto> Body resp)\<rparr>)))"
  using assms
  by (simp add: download_def downloadRequest_def downloadURL_def Do_def NewRequest_def
        Header_Add_def Let_def Sprintf_ss Sprintf_download_status
        split: sum.split option.split)

lemma download_rejected:
  assumes "NewRequest_err env ''GET'' (downloadURL c apiPath) = Some err"
  shows "download env c apiPath filepath w = (Panics, w)"
  using assms
  by (simp add: download_def downloadURL_def Let_def Sprintf_ss)

lemma DescribeGlobal_accepted:
  assumes "NewRequest_err env ''GET'' (describeURL c) = None"
  shows "DescribeGlobal env c w =
           (case httpClient c (sent w) (describeRequest env c) of
              Inl err \<Rightarrow> (Returns (Inl err), w\<lparr>sent := sent w @ [describeRequest env c]\<rparr>)
            | Inr resp \<Rightarrow>
                (Returns (json_Unmarshal_SObjectMeta env (Body resp)),
                 w\<lparr>sent := sent w @ [describeRequest env c]\<rparr>))"
  using assms
  by (simp add: DescribeGlobal_def describeRequest_def describeURL_def Do_def NewRequest_def
        Header_Add_def Let_def Sprintf_ss Sprintf_sobjects split: sum.split option.split)

subsection \<open>The session gate\<close>

text \<open>
  \<open>Query\<close>, \<open>QueryMore\<close> and \<open>ApexREST\<close> begin with the check of \<open>isLoggedIn\<close>: without a
  session token they return \<open>ErrAuthentication\<close> and leave the world as it is, so nothing
  reaches the transport.
\<close>

lemma Query_requires_login:
  "sessionID c = [] \<Longrightarrow> Query env c q w = (Inl ErrAuthentication, w)"
  by (simp add: Query_def isLoggedIn_def)

lemma QueryMore_requires_login:
  "sessionID c = [] \<Longrightarrow> QueryMore env c u w = (Inl ErrAuthentication, w)"
  by (simp add: QueryMore_def isLoggedIn_def)

lemma ApexREST_requires_login:
  "sessionID c = [] \<Longrightarrow>
     ApexREST env c method path body w = ((None, Some ErrAuthentication), w)"
  by (simp add: ApexREST_def isLoggedIn_def)

text \<open>
  C1. A Client with an empty session token gets \<open>ErrAuthentication\<close>, and no request is
  made, from every authenticated operation: \<open>Query\<close>, \<open>QueryMore\<close>, \<open>ApexREST\<close>, the
  download helpers and \<open>DescribeGlobal\<close>. The three lemmas above are the part that holds.
  \<open>download\<close> and \<open>DescribeGlobal\<close> have no such check: a Client fresh from \<open>NewClient\<close>
  calls \<open>DescribeGlobal\<close>, and a Client given an empty token and an instance URL calls
  \<open>DownloadFile\<close>; each hands a GET with the header \<open>Authorization: Bearer \<close> (no token) to
  the transport, and returns what comes of the server's answer (here 401), not
  \<open>ErrAuthentication\<close>.
\<close>

theorem unauthenticated_requests_are_sent:
  "sessionID (freshClient invalidSessionServer) = [] \<and>
   DescribeGlobal (exampleEnv invalidSessionServer createNil) (freshClient invalidSessionServer)
       exampleWorld =
     (Returns (Inl (DecodeError ''cannot unmarshal'')),
      exampleWorld\<lparr>sent :=
        [\<lparr>Method = ''GET'',
          URL = ''https://login.salesforce.com/services/data/v54.0/sobjects'',
          Header = [(''Content-Type'', ''application/json; charset=UTF-8''),
                    (''Accept'', ''application/json''),
                    (''Authorization'', ''Bearer '')],
          ReqBody = None\<rparr>]\<rparr>) \<and>
   sessionID (SetSidLoc (freshClient invalidSessionServer) [] ''https://na1.salesforce.com'') = [] \<and>
   DownloadFile (exampleEnv invalidSessionServer createNil)
       (SetSidLoc (freshClient invalidSessionServer) [] ''https://na1.salesforce.com'')
       ''068A'' ''/tmp/out.bin'' exampleWorld =
     (Returns (Some (ErrorString (''ERROR: statuscode: 401, body: '' @ invalidSessionBody))),
      exampleWorld\<lparr>sent :=
        [\<lparr>Method = ''GET'',
          URL = ''https://na1.salesforce.com/services/data/v54.0/sobjects/ContentVersion/068A/VersionData'',
          Header = [(''Content-Type'', ''application/json; charset=UTF-8''),
                    (''Accept'', ''application/json''),
                    (''Authorization'', ''Bearer '')],
          ReqBody = None\<rparr>]\<rparr>)"
proof -
  let ?env = "exampleEnv invalidSessionServer createNil"
  let ?c = "freshClient invalidSessionServer"
  let ?d = "SetSidLoc ?c [] ''https://na1.salesforce.com''"
  have a: "NewRequest_err ?env ''GET'' (describeURL ?c) = None"
    by (simp add: exampleEnv_def)
  have b: "NewRequest_err ?env ''GET'' (downloadURL ?d apiPath) = None" for apiPath
    by (simp add: exampleEnv_def)
  have 1: "sessionID ?c = []" "sessionID ?d = []"
    by (simp_all add: example_defs)
  have 2: "DescribeGlobal ?env ?c exampleWorld =
     (Returns (Inl (DecodeError ''cannot unmarshal'')),
      exampleWorld\<lparr>sent :=
        [\<lparr>Method = ''GET'',
          URL = ''https://login.salesforce.com/services/data/v54.0/sobjects'',
          Header = [(''Content-Type'', ''application/json; charset=UTF-8''),
                    (''Accept'', ''application/json''),
                    (''Authorization'', ''Bearer '')],
          ReqBody = None\<rparr>]\<rparr>)"
    unfolding DescribeGlobal_accepted [OF a]
    by (simp add: describeRequest_def describeURL_def TrimRight_def example_defs server_defs)
  have 3: "DownloadFile ?env ?d ''068A'' ''/tmp/out.bin'' exampleWorld =
     (Returns (Some (ErrorString (''ERROR: statuscode: 401, body: '' @ invalidSessionBody))),
      exampleWorld\<lparr>sent :=
        [\<lparr>Method = ''GET'',
          URL = ''https://na1.salesforce.com/services/data/v54.0/sobjects/ContentVersion/068A/VersionData'',
          Header = [(''Content-Type'', ''application/json; charset=UTF-8''),
                    (''Accept'', ''application/json''),
                    (''Authorization'', ''Bearer '')],
          ReqBody = None\<rparr>]\<rparr>)"
    unfolding DownloadFile_def Let_def download_accepted [OF b]
    by (simp add: downloadRequest_def downloadURL_def TrimRight_def Itoa_401 example_defs
          server_defs Sprintf.simps)
  from 1 2 3 show ?thesis by simp
qed

subsection \<open>The URL of a query\<close>

lemma Query_pipeline:
  assumes "isLoggedIn c"
  shows "Query env c q w =
           (case httpRequest env c ''GET'' (queryURL c q) None w of
              ((data, Some err), w') \<Rightarrow> (Inl err, w')
            | ((data, None), w') \<Rightarrow>
                (case json_Unmarshal_QueryResult env (bytes data) of
                   Inl err \<Rightarrow> (Inl err, w')
                 | Inr result \<Rightarrow> (Inr (attachClient c result), w')))"
  using assms
  by (simp add: Query_def queryURL_def Sprintf_ss Replace_query Sprintf_query Sprintf_tooling
        Let_def)

lemma httpRequest_rejected:
  "NewRequest_err env method url = Some err \<Longrightarrow>
   httpRequest env c method url body w = ((None, Some err), w)"
  by (simp add: httpRequest_def)

lemma parsing_facts:
  "isLoggedIn (sessionClient queryServer)"
  "instanceURL (sessionClient queryServer) = ''https://na1.salesforce.com''"
  "sessionID (sessionClient queryServer) = ''00Dsid''"
  "NewRequest_err (parsingEnv queryServer) ''GET''
     ''https://na1.salesforce.com/services/data/v54.0/query/01g5e%zz'' =
     Some (TransportError ''invalid URL escape'')"
  "NewRequest_err (parsingEnv queryServer) ''GET''
     ''https://na1.salesforce.com/services/data/v54.0/query/01g5e 2000'' = None"
  "parsedURL (parsingEnv queryServer)
     ''https://na1.salesforce.com/services/data/v54.0/query/01g5e 2000'' =
     ''https://na1.salesforce.com/services/data/v54.0/query/01g5e%202000''"
  by (simp_all add: example_defs parsingEnv_def)

text \<open>
  C2, as stated: for a logged-in Client and any string \<open>q\<close> that begins with
  \<open>/services/data\<close>, \<open>Query\<close> issues a GET to exactly \<open>instanceURL + q\<close>, with no
  percent-encoding. It does not for every \<open>q\<close>. For the continuation path
  \<open>/services/data/v54.0/query/01g5e%zz\<close> (a malformed escape) \<open>http.NewRequest\<close> fails,
  \<open>Query\<close> returns that error and no request is issued at all. For
  \<open>/services/data/v54.0/query/01g5e 2000\<close> (a space) a GET is issued, but to the URL as
  the library writes it, with \<open>%20\<close> for the space, which is not \<open>instanceURL + q\<close>.
\<close>

theorem Query_GET_not_for_every_q:
  "isLoggedIn (sessionClient queryServer) \<and>
   HasPrefix ''/services/data/v54.0/query/01g5e%zz'' ''/services/data'' \<and>
   Query (parsingEnv queryServer) (sessionClient queryServer)
       ''/services/data/v54.0/query/01g5e%zz'' exampleWorld =
     (Inl (TransportError ''invalid URL escape''), exampleWorld) \<and>
   sent exampleWorld = [] \<and>
   HasPrefix ''/services/data/v54.0/query/01g5e 2000'' ''/services/data'' \<and>
   map URL (sent (snd (Query (parsingEnv queryServer) (sessionClient queryServer)
                         ''/services/data/v54.0/query/01g5e 2000'' exampleWorld))) =
     [''https://na1.salesforce.com/services/data/v54.0/query/01g5e%202000''] \<and>
   instanceURL (sessionClient queryServer) @ ''/services/data/v54.0/query/01g5e 2000'' =
     ''https://na1.salesforce.com/services/data/v54.0/query/01g5e 2000''"
proof -
  let ?env = "parsingEnv queryServer"
  let ?c = "sessionClient queryServer"
  have u1: "queryURL ?c ''/services/data/v54.0/query/01g5e%zz'' =
              ''https://na1.salesforce.com/services/data/v54.0/query/01g5e%zz''"
    and u2: "queryURL ?c ''/services/data/v54.0/query/01g5e 2000'' =
              ''https://na1.salesforce.com/services/data/v54.0/query/01g5e 2000''"
    by (simp_all add: queryURL_def HasPrefix_def parsing_facts)
  have 1: "Query ?env ?c ''/services/data/v54.0/query/01g5e%zz'' exampleWorld =
             (Inl (TransportError ''invalid URL escape''), exampleWorld)"
    unfolding Query_pipeline [OF parsing_facts(1)] u1
      httpRequest_rejected [OF parsing_facts(4)]
    by simp
  have 2: "sent (snd (Query ?env ?c ''/services/data/v54.0/query/01g5e 2000'' exampleWorld)) =
             sent exampleWorld @
             [pipelineRequest ?env ?c ''GET''
                ''https://na1.salesforce.com/services/data/v54.0/query/01g5e 2000'' None]"
    unfolding Query_sent
    by (simp add: parsing_facts HasPrefix_def httpRequest_sent)
  from 1 2 show ?thesis
    by (simp add: parsing_facts HasPrefix_def pipelineRequest_def exampleWorld_def)
qed

text \<open>
  C2, amended: for a logged-in Client and any string \<open>q\<close>, \<open>Query\<close> runs the request
  pipeline with the method GET, no body and this URL: \<open>instanceURL + q\<close>, with no
  percent-encoding of its own, when \<open>q\<close> begins with \<open>/services/data\<close>, and otherwise
  \<open>instanceURL + "/services/data/v" + apiVersion + "/query?q="\<close> followed by the
  percent-encoded \<open>q\<close>, with \<open>tooling/query\<close> for \<open>query\<close> when the Client uses the
  tooling API. When \<open>http.NewRequest\<close> accepts that URL, one GET is issued, to the URL as
  the library parses and writes it; when it rejects the URL, no request is issued and
  \<open>Query\<close> returns the library's error.
\<close>

theorem Query_issues_GET:
  assumes "isLoggedIn c"
  shows "Query env c q w =
           (case httpRequest env c ''GET'' (queryURL c q) None w of
              ((data, Some err), w') \<Rightarrow> (Inl err, w')
            | ((data, None), w') \<Rightarrow>
                (case json_Unmarshal_QueryResult env (bytes data) of
                   Inl err \<Rightarrow> (Inl err, w')
                 | Inr result \<Rightarrow> (Inr (attachClient c result), w'))) \<and>
         sent (snd (Query env c q w)) =
           sent w @
           (case NewRequest_err env ''GET'' (queryURL c q) of
              Some err \<Rightarrow> []
            | None \<Rightarrow> [\<lparr>Method = ''GET'', URL = parsedURL env (queryURL c q),
                         Header = [(''Authorization'', ''Bearer '' @ sessionID c),
                                   (''Content-Type'', ''application/json'')],
                         ReqBody = None\<rparr>]) \<and>
         (\<forall>err. NewRequest_err env ''GET'' (queryURL c q) = Some err \<longrightarrow>
                Query env c q w = (Inl err, w))"
proof -
  have "sent (snd (Query env c q w)) =
           sent w @
           (case NewRequest_err env ''GET'' (queryURL c q) of
              Some err \<Rightarrow> []
            | None \<Rightarrow> [\<lparr>Method = ''GET'', URL = parsedURL env (queryURL c q),
                         Header = [(''Authorization'', ''Bearer '' @ sessionID c),
                                   (''Content-Type'', ''application/json'')],
                         ReqBody = None\<rparr>])"
    using assms
    by (simp add: Query_sent httpRequest_sent pipelineRequest_def queryURL_def
          split: option.split)
  moreover have "Query env c q w = (Inl err, w)"
    if "NewRequest_err env ''GET'' (queryURL c q) = Some err" for err
    unfolding Query_pipeline [OF assms] httpRequest_rejected [OF that]
    by simp
  ultimately show ?thesis
    using Query_pipeline [OF assms] by simp
qed

theorem Query_issues_GET_witness:
  "isLoggedIn (sessionClient queryServer) \<and>
   sent (snd (Query (exampleEnv queryServer createNil) (sessionClient queryServer)
                ''SELECT Id FROM Case WHERE IsClosed = false'' exampleWorld)) =
     [\<lparr>Method = ''GET'',
       URL = ''https://na1.salesforce.com/services/data/v54.0/query?q=SELECT+Id+FROM+Case+WHERE+IsClosed+%3D+false'',
       Header = [(''Authorization'', ''Bearer 00Dsid''),
                 (''Content-Type'', ''application/json'')],
       ReqBody = None\<rparr>] \<and>
   sent (snd (Query (exampleEnv queryServer createNil)
                ((sessionClient queryServer)\<lparr>useToolingAPI := True\<rparr>)
                ''SELECT Id FROM ApexClass'' exampleWorld)) =
     [\<lparr>Method = ''GET'',
       URL = ''https://na1.salesforce.com/services/data/v54.0/tooling/query?q=SELECT+Id+FROM+ApexClass'',
       Header = [(''Authorization'', ''Bearer 00Dsid''),
                 (''Content-Type'', ''application/json'')],
       ReqBody = None\<rparr>] \<and>
   sent (snd (Query (exampleEnv queryServer createNil) (sessionClient queryServer)
                ''/services/data/v54.0/query/01g5e-2000'' exampleWorld)) =
     [\<lparr>Method = ''GET'',
       URL = ''https://na1.salesforce.com/services/data/v54.0/query/01g5e-2000'',
       Header = [(''Authorization'', ''Bearer 00Dsid''),
                 (''Content-Type'', ''application/json'')],
       ReqBody = None\<rparr>]"
  using
    Query_issues_GET [of "sessionClient queryServer" "exampleEnv queryServer createNil"
      "''SELECT Id FROM Case WHERE IsClosed = false''" exampleWorld,
      THEN conjunct2, THEN conjunct1]
    Query_issues_GET [of "(sessionClient queryServer)\<lparr>useToolingAPI := True\<rparr>"
      "exampleEnv queryServer createNil" "''SELECT Id FROM ApexClass''" exampleWorld,
      THEN conjunct2, THEN conjunct1]
    Query_issues_GET [of "sessionClient queryServer" "exampleEnv queryServer createNil"
      "''/services/data/v54.0/query/01g5e-2000''" exampleWorld,
      THEN conjunct2, THEN conjunct1]
  by (simp add: example_defs escape_defs queryURL_def)

subsection \<open>The pipeline\<close>

lemma httpRequest_answered:
  assumes "NewRequest_err env method url = None"
    and "httpClient c (sent w) (pipelineRequest env c method url body) = Inr resp"
  shows "httpRequest env c method url body w =
           (if 200 \<le> StatusCode resp \<and> StatusCode resp \<le> 299
            then (Some (Body resp), BodyErr resp)
            else (None, Some (ParseSalesforceError env (StatusCode resp) (Body resp))),
            w\<lparr>sent := sent w @ [pipelineRequest env c method url body]\<rparr>)"
  using assms
  by (auto simp add: httpRequest_def Do_def NewRequest_def Header_Add_def pipelineRequest_def
        Sprintf_Bearer Let_def ReadAll_def)

text \<open>
  C3, as stated: with a status in [200,299] \<open>httpRequest\<close> returns the raw response bytes
  with a nil error. It does not when the body fails while it is read: the pipeline's
  last line returns what \<open>ioutil.ReadAll\<close> returns, and after an answer with status 200
  whose body breaks off, that is the bytes read so far together with the error of the
  read.
\<close>

theorem httpRequest_2xx_read_error:
  "httpClient (sessionClient truncatedServer) (sent exampleWorld)
       (pipelineRequest (exampleEnv truncatedServer createNil) (sessionClient truncatedServer)
          ''GET'' ''https://na1.salesforce.com/services/data/v54.0/limits'' None) =
     Inr \<lparr>StatusCode = 200, Body = truncatedBody,
          BodyErr = Some (TransportError ''unexpected EOF'')\<rparr> \<and>
   fst (httpRequest (exampleEnv truncatedServer createNil) (sessionClient truncatedServer)
          ''GET'' ''https://na1.salesforce.com/services/data/v54.0/limits'' None exampleWorld) =
     (Some truncatedBody, Some (TransportError ''unexpected EOF''))"
proof -
  have a: "NewRequest_err (exampleEnv truncatedServer createNil) ''GET''
             ''https://na1.salesforce.com/services/data/v54.0/limits'' = None"
    by (simp add: exampleEnv_def)
  have b: "httpClient (sessionClient truncatedServer) (sent exampleWorld)
       (pipelineRequest (exampleEnv truncatedServer createNil) (sessionClient truncatedServer)
          ''GET'' ''https://na1.salesforce.com/services/data/v54.0/limits'' None) =
     Inr \<lparr>StatusCode = 200, Body = truncatedBody,
          BodyErr = Some (TransportError ''unexpected EOF'')\<rparr>"
    by (simp add: example_defs truncatedServer_def)
  show ?thesis
    unfolding httpRequest_answered [OF a b]
    using b by simp
qed

text \<open>
  C3, amended: a request that \<open>httpRequest\<close> executes (the library accepted method and
  URL, and the transport answered with a response) is the request of its arguments with
  the headers \<open>Authorization: Bearer <token>\<close> and \<open>Content-Type: application/json\<close>. With
  a status in [200,299] the result is the bytes read from the body together with the
  error of reading it, which is nil when the body is read to its end (and the bytes are
  then the raw response bytes). With any other status the body is read as far as it can
  be read, and the result is nil data and the error the Error Mapper makes of the status
  and the bytes read.
\<close>

theorem httpRequest_executed:
  assumes "NewRequest_err env method url = None"
    and "httpClient c (sent w) (pipelineRequest env c method url body) = Inr resp"
  shows "httpRequest env c method url body w =
           (if 200 \<le> StatusCode resp \<and> StatusCode resp \<le> 299
            then (Some (Body resp), BodyErr resp)
            else (None, Some (ParseSalesforceError env (StatusCode resp) (Body resp))),
            w\<lparr>sent := sent w @ [pipelineRequest env c method url body]\<rparr>) \<and>
         Header (pipelineRequest env c method url body) =
           [(''Authorization'', ''Bearer '' @ sessionID c),
            (''Content-Type'', ''application/json'')]"
  using httpRequest_answered [OF assms]
  by (simp add: pipelineRequest_def)

theorem httpRequest_executed_witness:
  "httpRequest (exampleEnv queryServer createNil) (sessionClient queryServer) ''GET''
       ''https://na1.salesforce.com/services/data/v54.0/limits'' None exampleWorld =
     ((Some queryBody, None),
      exampleWorld\<lparr>sent :=
        [\<lparr>Method = ''GET'', URL = ''https://na1.salesforce.com/services/data/v54.0/limits'',
          Header = [(''Authorization'', ''Bearer 00Dsid''),
                    (''Content-Type'', ''application/json'')],
          ReqBody = None\<rparr>]\<rparr>) \<and>
   httpRequest (exampleEnv notFoundServer createNil) (sessionClient notFoundServer) ''GET''
       ''https://na1.salesforce.com/services/data/v54.0/limits'' None exampleWorld =
     ((None, Some (SalesforceError 404 ''NOT_FOUND'' ''The requested resource does not exist'')),
      exampleWorld\<lparr>sent :=
        [\<lparr>Method = ''GET'', URL = ''https://na1.salesforce.com/services/data/v54.0/limits'',
          Header = [(''Authorization'', ''Bearer 00Dsid''),
                    (''Content-Type'', ''application/json'')],
          ReqBody = None\<rparr>]\<rparr>)"
  using
    httpRequest_executed [of "exampleEnv queryServer createNil" "''GET''"
      "''https://na1.salesforce.com/services/data/v54.0/limits''" "sessionClient queryServer"
      exampleWorld None "\<lparr>StatusCode = 200, Body = queryBody, BodyErr = None\<rparr>"]
    httpRequest_executed [of "exampleEnv notFoundServer createNil" "''GET''"
      "''https://na1.salesforce.com/services/data/v54.0/limits''" "sessionClient notFoundServer"
      exampleWorld None "\<lparr>StatusCode = 404, Body = notFoundBody, BodyErr = None\<rparr>"]
  by (simp add: example_defs server_defs pipelineRequest_def specErrorMapper_def
        exampleEnvelope_def)

subsection \<open>The back-reference of the records\<close>

lemma set_Records_attachClient:
  "r \<in> set (Records (attachClient c result)) \<Longrightarrow> sobj_client r = Some c"
  by (auto simp: attachClient_def setClient_def)

lemma Query_Inr_attached:
  "Query env c q w = (Inr qr, w') \<Longrightarrow> \<exists>result. qr = attachClient c result"
  by (auto simp: Query_def Let_def split: if_splits prod.splits sum.splits option.splits)

lemma QueryMore_Inr_attached:
  "QueryMore env c u w = (Inr qr, w') \<Longrightarrow> \<exists>result. qr = attachClient c result"
  by (auto simp: QueryMore_def Let_def split: if_splits prod.splits sum.splits option.splits)

text \<open>
  C4. Every record of the result of a successful \<open>Query\<close>, and of a successful
  \<open>QueryMore\<close>, has the Client that made the call as its back-reference (which is what a
  relationship accessor on the record reads, so the caller need not supply the Client
  again).
\<close>

theorem query_results_carry_client:
  "(Query env c q w = (Inr qr, w') \<longrightarrow>
      (\<forall>r \<in> set (Records qr). sobj_client r = Some c)) \<and>
   (QueryMore env c u w = (Inr qr', w'') \<longrightarrow>
      (\<forall>r \<in> set (Records qr'). sobj_client r = Some c))"
  using Query_Inr_attached QueryMore_Inr_attached set_Records_attachClient
  by blast

theorem query_results_carry_client_witness:
  "Query (exampleEnv queryServer createNil) (sessionClient queryServer) ''SELECT Id FROM Case''
       exampleWorld =
     (Inr \<lparr>TotalSize = 2, Done = True, NextRecordsURL = [],
           Records =
             [(decodedRecord ''500A'')\<lparr>sobj_client := Some (sessionClient queryServer)\<rparr>,
              (decodedRecord ''500B'')\<lparr>sobj_client := Some (sessionClient queryServer)\<rparr>]\<rparr>,
      exampleWorld\<lparr>sent := [pipelineRequest (exampleEnv queryServer createNil) (sessionClient queryServer) ''GET''
         ''https://na1.salesforce.com/services/data/v54.0/query?q=SELECT+Id+FROM+Case''
         None]\<rparr>) \<and>
   QueryMore (exampleEnv queryServer createNil) (sessionClient queryServer)
       ''/services/data/v54.0/query/01g5e-2000'' exampleWorld =
     (Inr \<lparr>TotalSize = 2, Done = True, NextRecordsURL = [],
           Records =
             [(decodedRecord ''500A'')\<lparr>sobj_client := Some (sessionClient queryServer)\<rparr>,
              (decodedRecord ''500B'')\<lparr>sobj_client := Some (sessionClient queryServer)\<rparr>]\<rparr>,
      exampleWorld\<lparr>sent := [pipelineRequest (exampleEnv queryServer createNil) (sessionClient queryServer) ''GET''
         ''https://na1.salesforce.com/services/data/v54.0/query/01g5e-2000'' None]\<rparr>) \<and>
   sobj_client ((decodedRecord ''500A'')\<lparr>sobj_client := Some (sessionClient queryServer)\<rparr>) =
     Some (sessionClient queryServer) \<and>
   sobj_client ((decodedRecord ''500B'')\<lparr>sobj_client := Some (sessionClient queryServer)\<rparr>) =
     Some (sessionClient queryServer)"
proof -
  let ?env = "exampleEnv queryServer createNil"
  let ?c = "sessionClient queryServer"
  let ?qr = "\<lparr>TotalSize = 2, Done = True, NextRecordsURL = [],
           Records = [(decodedRecord ''500A'')\<lparr>sobj_client := Some ?c\<rparr>,
                      (decodedRecord ''500B'')\<lparr>sobj_client := Some ?c\<rparr>]\<rparr>"
  let ?w1 = "exampleWorld\<lparr>sent := [pipelineRequest ?env ?c ''GET''
         ''https://na1.salesforce.com/services/data/v54.0/query?q=SELECT+Id+FROM+Case''
         None]\<rparr>"
  let ?w2 = "exampleWorld\<lparr>sent := [pipelineRequest ?env ?c ''GET''
         ''https://na1.salesforce.com/services/data/v54.0/query/01g5e-2000'' None]\<rparr>"
  have c: "isLoggedIn ?c" "instanceURL ?c = ''https://na1.salesforce.com''"
    "apiVersion ?c = ''54.0''" "useToolingAPI ?c = False" "sessionID ?c = ''00Dsid''"
    "httpClient ?c = queryServer"
    by (simp_all add: example_defs)
  have s: "queryServer earlier req = Inr \<lparr>StatusCode = 200, Body = queryBody, BodyErr = None\<rparr>"
    for earlier req
    by (simp add: queryServer_def answer_def)
  have e: "NewRequest_err ?env = (\<lambda>method url. None)"
    "parsedURL ?env = (\<lambda>url. url)"
    "json_Unmarshal_QueryResult ?env = exampleQueryResult"
    "json_Decode_QueryResult ?env body None = exampleQueryResult body" for body
    by (simp_all add: exampleEnv_def)
  have q: "Query ?env ?c ''SELECT Id FROM Case'' exampleWorld = (Inr ?qr, ?w1)"
    by (simp add: Query_def httpRequest_def Do_def NewRequest_def Header_Add_def Let_def c e
          Sprintf_query Sprintf_Bearer HasPrefix_def escape_defs pipelineRequest_def
          ReadAll_def bytes_def s exampleWorld_def exampleQueryResult_def attachClient_def setClient_def)
  have m: "QueryMore ?env ?c ''/services/data/v54.0/query/01g5e-2000'' exampleWorld =
             (Inr ?qr, ?w2)"
    by (simp add: QueryMore_def Do_def NewRequest_def Header_Add_def Let_def c e
          Sprintf_ss Sprintf_Bearer pipelineRequest_def
          s exampleWorld_def exampleQueryResult_def attachClient_def setClient_def)
  from query_results_carry_client [of ?env ?c "''SELECT Id FROM Case''" exampleWorld ?qr ?w1
      "''/services/data/v54.0/query/01g5e-2000''" ?qr ?w2] q m
  have "\<forall>r \<in> set (Records ?qr). sobj_client r = Some ?c"
    by blast
  with q m show ?thesis by simp
qed

subsection \<open>Login\<close>

text \<open>
  C5. When the login handshake is answered with a status other than 200, \<open>LoginPassword\<close>
  returns the error the Error Mapper makes of the status and the body, and the Client is
  as it was: session token, instance URL and the cached user identity are not written, so
  a Client that was not logged in is still not logged in.
\<close>

theorem LoginPassword_non200:
  assumes "NewRequest_err env ''POST'' (loginURL c) = None"
    and "httpClient c (sent w) (loginRequest env c username password token) = Inr resp"
    and "StatusCode resp \<noteq> 200"
  shows "LoginPassword env c username password token w =
           (Some (ParseSalesforceError env (StatusCode resp) (Body resp)), c,
            w\<lparr>sent := sent w @ [loginRequest env c username password token]\<rparr>) \<and>
         isLoggedIn (fst (snd (LoginPassword env c username password token w))) =
           isLoggedIn c"
  using assms by (simp add: LoginPassword_def Do_def Let_def)

theorem LoginPassword_non200_witness:
  "LoginPassword (exampleEnv loginFaultServer createNil) (freshClient loginFaultServer)
       ''bad'' ''bad'' ''bad'' exampleWorld =
     (Some (SalesforceError 500 [] loginFaultBody), freshClient loginFaultServer,
      exampleWorld\<lparr>sent :=
        [loginRequest (exampleEnv loginFaultServer createNil)
          (freshClient loginFaultServer) ''bad'' ''bad'' ''bad'']\<rparr>) \<and>
   \<not> isLoggedIn (freshClient loginFaultServer) \<and>
   \<not> isLoggedIn (fst (snd (LoginPassword (exampleEnv loginFaultServer createNil)
         (freshClient loginFaultServer) ''bad'' ''bad'' ''bad'' exampleWorld)))"
proof -
  let ?env = "exampleEnv loginFaultServer createNil"
  let ?c = "freshClient loginFaultServer"
  have 1: "NewRequest_err ?env ''POST'' (loginURL ?c) = None"
    by (simp add: exampleEnv_def)
  have 2: "httpClient ?c (sent exampleWorld) (loginRequest ?env ?c ''bad'' ''bad'' ''bad'') =
             Inr \<lparr>StatusCode = 500, Body = loginFaultBody, BodyErr = None\<rparr>"
    by (simp add: example_defs loginFaultServer_def)
  have 3: "ParseSalesforceError ?env 500 loginFaultBody = SalesforceError 500 [] loginFaultBody"
    by (simp add: exampleEnv_def specErrorMapper_def exampleEnvelope_def loginFaultBody_def
          notFoundBody_def invalidSessionBody_def)
  have 4: "\<not> isLoggedIn ?c"
    by (simp add: example_defs)
  from LoginPassword_non200 [OF 1 2] 3 4 show ?thesis
    by (simp add: exampleWorld_def)
qed

text \<open>
  C10. There are inputs on which \<open>LoginPassword\<close> returns nil and leaves the Client not
  logged in: whenever the answer has status 200 and a body that the XML decoder accepts
  with an empty \<open>SessionID\<close> (no \<open>sessionId\<close> element), the call returns no error, the
  session token it stores is the empty string, and \<open>isLoggedIn\<close> is false. The witness is
  such an input.
\<close>

theorem LoginPassword_empty_session:
  assumes "NewRequest_err env ''POST'' (loginURL c) = None"
    and "httpClient c (sent w) (loginRequest env c username password token) = Inr resp"
    and "StatusCode resp = 200"
    and "xml_Unmarshal_login env (Body resp) = Inr lr"
    and "SessionID lr = []"
  shows "\<exists>c' w'. LoginPassword env c username password token w = (None, c', w') \<and>
           sessionID c' = [] \<and> \<not> isLoggedIn c'"
  using assms by (simp add: LoginPassword_def Do_def Let_def isLoggedIn_def)

theorem LoginPassword_empty_session_witness:
  "LoginPassword (exampleEnv loginServer createNil) (freshClient loginServer)
       ''user@example.com'' ''secret'' ''tok'' exampleWorld =
     (None,
      (freshClient loginServer)\<lparr>instanceURL := ''https://na1.salesforce.com''\<rparr>,
      exampleWorld\<lparr>sent := [loginRequest (exampleEnv loginServer createNil)
                                 (freshClient loginServer)
                                 ''user@example.com'' ''secret'' ''tok'']\<rparr>) \<and>
   \<not> isLoggedIn ((freshClient loginServer)\<lparr>instanceURL := ''https://na1.salesforce.com''\<rparr>)"
proof -
  let ?env = "exampleEnv loginServer createNil"
  let ?c = "freshClient loginServer"
  let ?lr = "\<lparr>ServerURL = ''https://na1.salesforce.com/services/Soap/u/54.0/00D'',
              SessionID = [], UserID = [], UserEmail = [], UserFullName = [], UserName = []\<rparr>"
  have 1: "NewRequest_err ?env ''POST'' (loginURL ?c) = None"
    by (simp add: exampleEnv_def)
  have 2: "httpClient ?c (sent exampleWorld)
             (loginRequest ?env ?c ''user@example.com'' ''secret'' ''tok'') =
             Inr \<lparr>StatusCode = 200, Body = loginBody, BodyErr = None\<rparr>"
    by (simp add: example_defs loginServer_def)
  have 3: "xml_Unmarshal_login ?env (Body \<lparr>StatusCode = 200, Body = loginBody, BodyErr = None\<rparr>) = Inr ?lr"
    by (simp add: exampleEnv_def)
  have 4: "parseHost ?env ''https://na1.salesforce.com/services/Soap/u/54.0/00D'' =
             ''https://na1.salesforce.com''"
    by (simp add: parseHost_def exampleEnv_def Sprintf.simps)
  have 5: "sessionID ?c = []"
    "user ?c = \<lparr>user_id = [], user_name = [], user_fullName = [], user_email = []\<rparr>"
    by (simp_all add: example_defs)
  from LoginPassword_empty_session [OF 1 2 _ 3]
  obtain c' w' where
    r: "LoginPassword ?env ?c ''user@example.com'' ''secret'' ''tok'' exampleWorld =
          (None, c', w')"
    and n: "\<not> isLoggedIn c'"
    by auto
  have "LoginPassword ?env ?c ''user@example.com'' ''secret'' ''tok'' exampleWorld =
     (None, ?c\<lparr>instanceURL := ''https://na1.salesforce.com''\<rparr>,
      exampleWorld\<lparr>sent := [loginRequest ?env ?c ''user@example.com'' ''secret'' ''tok'']\<rparr>)"
    using 1 2 3 4 5 by (simp add: LoginPassword_def Do_def Let_def exampleWorld_def)
  with r n show ?thesis by simp
qed

subsection \<open>The error of \<open>QueryMore\<close>\<close>

text \<open>
  C6, as stated: on a status outside [200,299] \<open>QueryMore\<close> returns the typed error the
  Error Mapper makes of the status and the body. It does not: the server answers 404 with
  the platform's error envelope, the Error Mapper makes \<open>NOT_FOUND\<close> of it, and
  \<open>QueryMore\<close> returns the plain error "QueryMore failed with status: 404".
\<close>

theorem QueryMore_error_is_not_mapped:
  "httpClient (sessionClient notFoundServer) (sent exampleWorld)
       (pipelineRequest (exampleEnv notFoundServer createNil) (sessionClient notFoundServer)
         ''GET''
          (instanceURL (sessionClient notFoundServer) @ ''/services/data/v54.0/query/01g5e-2000'')
          None) =
     Inr \<lparr>StatusCode = 404, Body = notFoundBody, BodyErr = None\<rparr> \<and>
   fst (QueryMore (exampleEnv notFoundServer createNil) (sessionClient notFoundServer)
          ''/services/data/v54.0/query/01g5e-2000'' exampleWorld) =
     Inl (ErrorString ''QueryMore failed with status: 404'') \<and>
   fst (QueryMore (exampleEnv notFoundServer createNil) (sessionClient notFoundServer)
          ''/services/data/v54.0/query/01g5e-2000'' exampleWorld) \<noteq>
     Inl (ParseSalesforceError (exampleEnv notFoundServer createNil) 404 notFoundBody)"
proof -
  have "QueryMore (exampleEnv notFoundServer createNil) (sessionClient notFoundServer)
       ''/services/data/v54.0/query/01g5e-2000'' exampleWorld =
     (Inl (ErrorString ''QueryMore failed with status: 404''),
      exampleWorld\<lparr>sent := [pipelineRequest (exampleEnv notFoundServer createNil) (sessionClient notFoundServer)
         ''GET''
         ''https://na1.salesforce.com/services/data/v54.0/query/01g5e-2000'' None]\<rparr>)"
    using QueryMore_answered [of "sessionClient notFoundServer"
      "exampleEnv notFoundServer createNil" "''/services/data/v54.0/query/01g5e-2000''"
      exampleWorld "\<lparr>StatusCode = 404, Body = notFoundBody, BodyErr = None\<rparr>"]
    by (simp add: notFound_facts Itoa_404 exampleWorld_def)
  then show ?thesis
    by (simp add: notFound_facts)
qed

text \<open>
  C6, amended: when a logged-in Client's \<open>QueryMore\<close> is answered with a status outside
  [200,299], the error returned is the plain error whose message is
  "QueryMore failed with status: " followed by the status in decimal. The body is not
  read and the Error Mapper is not used: the error carries the status in its text only,
  and no platform error code or message.
\<close>

theorem QueryMore_non2xx:
  assumes "isLoggedIn c"
    and "NewRequest_err env ''GET'' (instanceURL c @ u) = None"
    and "httpClient c (sent w) (pipelineRequest env c ''GET'' (instanceURL c @ u) None) = Inr resp"
    and "StatusCode resp < 200 \<or> StatusCode resp > 299"
  shows "QueryMore env c u w =
           (Inl (ErrorString (''QueryMore failed with status: '' @ Itoa (StatusCode resp))),
            w\<lparr>sent := sent w @ [pipelineRequest env c ''GET'' (instanceURL c @ u) None]\<rparr>)"
  using QueryMore_answered [OF assms(1-3)] assms(4) by simp

theorem QueryMore_non2xx_witness:
  "QueryMore (exampleEnv notFoundServer createNil) (sessionClient notFoundServer)
       ''/services/data/v54.0/query/01g5e-2000'' exampleWorld =
     (Inl (ErrorString ''QueryMore failed with status: 404''),
      exampleWorld\<lparr>sent := [pipelineRequest (exampleEnv notFoundServer createNil) (sessionClient notFoundServer)
         ''GET''
         ''https://na1.salesforce.com/services/data/v54.0/query/01g5e-2000'' None]\<rparr>)"
  using QueryMore_non2xx [of "sessionClient notFoundServer" "exampleEnv notFoundServer createNil"
      "''/services/data/v54.0/query/01g5e-2000''" exampleWorld
      "\<lparr>StatusCode = 404, Body = notFoundBody, BodyErr = None\<rparr>"]
  by (simp add: notFound_facts Itoa_404 exampleWorld_def)

subsection \<open>Downloads\<close>

text \<open>
  C7, as stated: a download answered with a status outside [200,299] surfaces the mapped
  error and does not create or empty the destination file. The file is indeed untouched,
  but the error is not the Error Mapper's: for the 404 answer above \<open>DownloadLegacyFile\<close>
  returns the plain error "ERROR: statuscode: 404, body: " followed by the body.
\<close>

theorem download_error_is_not_mapped:
  "httpClient (sessionClient notFoundServer) (sent exampleWorld)
       (downloadRequest (exampleEnv notFoundServer createNil) (sessionClient notFoundServer)
          ''/services/data/v54.0/sobjects/Attachment/00PINVALIDID/Body'') =
     Inr \<lparr>StatusCode = 404, Body = notFoundBody, BodyErr = None\<rparr> \<and>
   fst (DownloadLegacyFile (exampleEnv notFoundServer createNil) (sessionClient notFoundServer)
          ''00PINVALIDID'' ''/tmp/hi.txt'' exampleWorld) =
     Returns (Some (ErrorString (''ERROR: statuscode: 404, body: '' @ notFoundBody))) \<and>
   fst (DownloadLegacyFile (exampleEnv notFoundServer createNil) (sessionClient notFoundServer)
          ''00PINVALIDID'' ''/tmp/hi.txt'' exampleWorld) \<noteq>
     Returns (Some (ParseSalesforceError (exampleEnv notFoundServer createNil) 404 notFoundBody))"
proof -
  have a: "NewRequest_err (exampleEnv notFoundServer createNil) ''GET''
             (downloadURL (sessionClient notFoundServer) apiPath) = None" for apiPath
    by (simp add: notFound_facts)
  show ?thesis
    unfolding DownloadLegacyFile_def Let_def download_accepted [OF a]
    by (simp add: notFound_facts Itoa_404 exampleWorld_def)
qed

text \<open>
  C7, amended: when \<open>download\<close> (which \<open>DownloadFile\<close>, \<open>DownloadAttachment\<close> and
  \<open>DownloadLegacyFile\<close> call with their API path) is answered with a status outside
  [200,299], it returns the plain error "ERROR: statuscode: <status>, body: <body>", made
  of the status and the body without the Error Mapper, and the files are as they were.
  And the files change only after an answer with a status in [200,299]: then the
  destination holds the bytes the body delivered.
\<close>

theorem download_non_success:
  "(NewRequest_err env ''GET'' (downloadURL c apiPath) = None \<and>
    httpClient c (sent w) (downloadRequest env c apiPath) = Inr resp \<and>
    (StatusCode resp < 200 \<or> StatusCode resp > 299) \<longrightarrow>
      download env c apiPath filepath w =
        (Returns (Some (ErrorString
           (''ERROR: statuscode: '' @ Itoa (StatusCode resp) @ '', body: '' @ Body resp))),
         w\<lparr>sent := sent w @ [downloadRequest env c apiPath]\<rparr>) \<and>
      files (snd (download env c apiPath filepath w)) = files w) \<and>
   (files (snd (download env c apiPath filepath w)) \<noteq> files w \<longrightarrow>
      (\<exists>ok. httpClient c (sent w) (downloadRequest env c apiPath) = Inr ok \<and>
            200 \<le> StatusCode ok \<and> StatusCode ok \<le> 299 \<and>
            files (snd (download env c apiPath filepath w)) =
              (files w)(filepath \<mapsto> Body ok)))"
proof (cases "NewRequest_err env ''GET'' (downloadURL c apiPath)")
  case None
  show ?thesis
    by (auto simp: download_accepted [OF None] split: sum.splits option.splits if_splits)
next
  case (Some err)
  show ?thesis
    by (simp add: download_rejected [OF Some] Some)
qed

theorem download_non_success_witness:
  "download (exampleEnv notFoundServer createNil) (sessionClient notFoundServer)
       ''/services/data/v54.0/sobjects/Attachment/00PINVALIDID/Body'' ''/tmp/hi.txt''
       exampleWorld =
     (Returns (Some (ErrorString (''ERROR: statuscode: 404, body: '' @ notFoundBody))),
      exampleWorld\<lparr>sent := [downloadRequest (exampleEnv notFoundServer createNil) (sessionClient notFoundServer)
         ''/services/data/v54.0/sobjects/Attachment/00PINVALIDID/Body'']\<rparr>) \<and>
   files (snd (download (exampleEnv notFoundServer createNil) (sessionClient notFoundServer)
       ''/services/data/v54.0/sobjects/Attachment/00PINVALIDID/Body'' ''/tmp/hi.txt''
       exampleWorld))
     ''/tmp/hi.txt'' = Some ''hi''"
  using download_non_success [of "exampleEnv notFoundServer createNil"
      "sessionClient notFoundServer"
      "''/services/data/v54.0/sobjects/Attachment/00PINVALIDID/Body''" exampleWorld
      "\<lparr>StatusCode = 404, Body = notFoundBody, BodyErr = None\<rparr>" "''/tmp/hi.txt''"]
  by (simp add: notFound_facts Itoa_404 exampleWorld_def)

text \<open>
  C9. \<open>DownloadAttachment\<close> and \<open>DownloadLegacyFile\<close> are equal on all arguments, result
  and effects: both are \<open>download\<close> at the API path
  \<open>/services/data/v<version>/sobjects/Attachment/<id>/Body\<close>.
\<close>

theorem Attachment_downloads_agree:
  "DownloadAttachment env c attachmentID filepath w =
     DownloadLegacyFile env c attachmentID filepath w \<and>
   DownloadLegacyFile env c attachmentID filepath w =
     download env c
       (''/services/data/v'' @ apiVersion c @ ''/sobjects/Attachment/'' @ attachmentID @ ''/Body'')
       filepath w"
  by (simp add: DownloadAttachment_def DownloadLegacyFile_def Sprintf_Attachment)

subsection \<open>Upload\<close>

lemma ID_Set_Id: "ID (Set obj ''Id'' (JString i)) = i"
  by (simp add: ID_def StringField_def Set_def)

text \<open>
  C8. In \<open>UploadFileToContentVersion\<close>, once the file is read: if the create call returns
  nil or a record with an empty identifier, the result is two empty identifiers and an
  error; if it returns a record with an identifier and the follow-up query fails or has
  no records, the result is that identifier (not empty), an empty ContentDocument
  identifier and an error.
\<close>

theorem Upload_failure_results:
  assumes "files w filePath = Some data"
    and "Create env c (contentVersionRecord env c filePath data parentRecordID opts) w =
           (res, c', w')"
  shows "((res = None \<or> (\<exists>r. res = Some r \<and> ID r = [])) \<longrightarrow>
            fst (UploadFileToContentVersion env c filePath parentRecordID opts w) =
              ([], [], Some (ErrorString ''failed to create ContentVersion''))) \<and>
         (\<forall>r. res = Some r \<and> ID r \<noteq> [] \<and>
              (case fst (Query env c' (contentDocumentQuery (ID r)) w') of
                 Inl err \<Rightarrow> True
               | Inr qr \<Rightarrow> Records qr = []) \<longrightarrow>
            (\<exists>err. fst (UploadFileToContentVersion env c filePath parentRecordID opts w) =
                     (ID r, [], Some err)))"
  using assms
  by (auto simp: UploadFileToContentVersion_def Let_def
        split: option.splits prod.splits sum.splits list.splits)

theorem Upload_failure_results_witness:
  "fst (UploadFileToContentVersion (exampleEnv notFoundServer createNil)
          (sessionClient notFoundServer) ''/tmp/hi.txt'' ''001INVALIDID'' [] exampleWorld) =
     ([], [], Some (ErrorString ''failed to create ContentVersion'')) \<and>
   (\<exists>err. fst (UploadFileToContentVersion (exampleEnv notFoundServer (createWithId ''068A''))
          (sessionClient notFoundServer) ''/tmp/hi.txt'' ''001A'' [WithTitle ''hi'']
          exampleWorld) =
     (''068A'', [], Some err)) \<and>
   (\<exists>err. fst (UploadFileToContentVersion (exampleEnv emptyServer (createWithId ''068A''))
          (sessionClient emptyServer) ''/tmp/hi.txt'' ''001A'' [] exampleWorld) =
     (''068A'', [], Some err))"
proof -
  have f: "files exampleWorld ''/tmp/hi.txt'' = Some ''hi''"
    by (simp add: exampleWorld_def)
  let ?e1 = "exampleEnv notFoundServer createNil"
  let ?e2 = "exampleEnv notFoundServer (createWithId ''068A'')"
  let ?e3 = "exampleEnv emptyServer (createWithId ''068A'')"
  let ?c = "sessionClient notFoundServer"
  let ?d = "sessionClient emptyServer"
  let ?r2 = "Set (contentVersionRecord ?e2 ?c ''/tmp/hi.txt'' ''hi'' ''001A'' [WithTitle ''hi''])
               ''Id'' (JString ''068A'')"
  let ?r3 = "Set (contentVersionRecord ?e3 ?d ''/tmp/hi.txt'' ''hi'' ''001A'' [])
               ''Id'' (JString ''068A'')"
  have c1: "Create ?e1 ?c (contentVersionRecord ?e1 ?c ''/tmp/hi.txt'' ''hi'' ''001INVALIDID'' [])
              exampleWorld = (None, ?c, exampleWorld)"
    by (simp add: exampleEnv_def createNil_def)
  have c2: "Create ?e2 ?c
              (contentVersionRecord ?e2 ?c ''/tmp/hi.txt'' ''hi'' ''001A'' [WithTitle ''hi''])
              exampleWorld = (Some ?r2, ?c, exampleWorld)"
    by (simp add: exampleEnv_def createWithId_def)
  have c3: "Create ?e3 ?d (contentVersionRecord ?e3 ?d ''/tmp/hi.txt'' ''hi'' ''001A'' [])
              exampleWorld = (Some ?r3, ?d, exampleWorld)"
    by (simp add: exampleEnv_def createWithId_def)
  have i: "ID ?r2 = ''068A''" "ID ?r3 = ''068A''"
    by (simp_all add: ID_Set_Id)
  have q2: "fst (Query ?e2 ?c (contentDocumentQuery ''068A'') exampleWorld) =
              Inl (SalesforceError 404 ''NOT_FOUND'' ''The requested resource does not exist'')"
    by (simp add: Query_def httpRequest_def Do_def Let_def notFound_facts
          split: prod.split sum.split)
  have e: "isLoggedIn ?d" "NewRequest_err ?e3 m u = None" "parsedURL ?e3 u = u"
    "httpClient ?d earlier req = Inr \<lparr>StatusCode = 200, Body = emptyBody, BodyErr = None\<rparr>"
    "json_Unmarshal_QueryResult ?e3 emptyBody =
       Inr \<lparr>TotalSize = 0, Done = True, NextRecordsURL = [], Records = []\<rparr>"
    for m u earlier req
    by (simp_all add: example_defs emptyServer_def exampleQueryResult_def emptyBody_def
          queryBody_def)
  have q3: "fst (Query ?e3 ?d (contentDocumentQuery ''068A'') exampleWorld) =
              Inr \<lparr>TotalSize = 0, Done = True, NextRecordsURL = [], Records = []\<rparr>"
    by (simp add: Query_def httpRequest_def Do_def Let_def e attachClient_def ReadAll_def
          bytes_def split: prod.split sum.split)
  from Upload_failure_results [OF f c1] Upload_failure_results [OF f c2]
    Upload_failure_results [OF f c3] i q2 q3
  show ?thesis by simp
qed

end
